theory Spec2Isabelle
  imports Complex_Main
begin

section \<open>Data model (backend/models.py)\<close>

text \<open>
  The pydantic models become records and the enums datatypes. Python floats are read as
  reals: the properties below only compare and count, none depends on rounding. The
  \<open>timestamp\<close> fields (filled from the clock) are left out; no operation reads them.
  The field \<open>id\<close> of a transaction is called \<open>txn_id\<close>.
\<close>

datatype TransactionStatus = SUCCESS | FAILED | PENDING

datatype PaymentMethod = CREDIT_CARD | DEBIT_CARD | UPI | NET_BANKING | WALLET

datatype ActionType = SWITCH_GATEWAY | INCREASE_RETRY | BLOCK_MERCHANT | REDUCE_LOAD | NO_ACTION

datatype AgentSource = STUDENT | TEACHER

fun PaymentMethod_value :: "PaymentMethod \<Rightarrow> string" where
  "PaymentMethod_value CREDIT_CARD = ''credit_card''"
| "PaymentMethod_value DEBIT_CARD = ''debit_card''"
| "PaymentMethod_value UPI = ''upi''"
| "PaymentMethod_value NET_BANKING = ''net_banking''"
| "PaymentMethod_value WALLET = ''wallet''"

fun ActionType_value :: "ActionType \<Rightarrow> string" where
  "ActionType_value SWITCH_GATEWAY = ''switch_gateway''"
| "ActionType_value INCREASE_RETRY = ''increase_retry''"
| "ActionType_value BLOCK_MERCHANT = ''block_merchant''"
| "ActionType_value REDUCE_LOAD = ''reduce_load''"
| "ActionType_value NO_ACTION = ''no_action''"

record Transaction =
  txn_id :: string
  amount :: real
  currency :: string
  merchant_id :: string
  bank_name :: string
  payment_method :: PaymentMethod
  status :: TransactionStatus
  error_code :: "string option"
  latency_ms :: int

record Decision =
  action :: ActionType
  reasoning :: string
  confidence_score :: real
  agent_source :: AgentSource

record AgentArgument =
  agent_name :: string
  stance :: string
  argument :: string
  suggested_action :: ActionType

record CouncilDebate =
  risk_argument :: AgentArgument
  growth_argument :: AgentArgument
  manager_synthesis :: string
  final_decision :: Decision
  debate_duration_ms :: int

record SystemMetrics =
  total_transactions :: int
  successful_transactions :: int
  failed_transactions :: int
  success_rate :: real
  student_decisions :: int
  teacher_decisions :: int
  student_confidence :: real
  chaos_active :: bool
  chaos_bank :: "string option"

text \<open>Exceptions are values; a call that may raise returns \<open>exn + 'a\<close>.\<close>

datatype exn =
    KeyError string
  | ValueError string
  | IndexError
  | TypeError
  | AttributeError
  | ValidationError
  | OSError
  | BackendError

text \<open>
  The constructor of \<open>Decision\<close> validates \<open>confidence_score\<close> (\<open>ge=0, le=1\<close>) and
  raises otherwise.
\<close>

definition Decision_new :: "ActionType \<Rightarrow> string \<Rightarrow> real \<Rightarrow> AgentSource \<Rightarrow> exn + Decision" where
  "Decision_new a r c src =
     (if 0 \<le> c \<and> c \<le> 1
      then Inr \<lparr>action = a, reasoning = r, confidence_score = c, agent_source = src\<rparr>
      else Inl ValidationError)"

section \<open>The Student (backend/student.py)\<close>

text \<open>
  The River pipeline is an external library. Its state is a type parameter \<open>'m\<close> and its
  operations are the fields of \<open>river\<close>: \<open>fresh\<close> is the pipeline the constructor builds,
  \<open>predict_proba_one\<close> returns the dict of class probabilities in its iteration order, or
  raises, and may update the pipeline; \<open>learn_one\<close> returns the updated pipeline (the source
  has no handler around it). A feature dict is an association list in the order the source
  writes its keys.
\<close>

type_synonym features = "(string \<times> real) list"

record 'm river =
  fresh :: 'm
  predict_proba_one :: "'m \<Rightarrow> features \<Rightarrow> (exn + (int \<times> real) list) \<times> 'm"
  learn_one :: "'m \<Rightarrow> features \<Rightarrow> int \<Rightarrow> 'm"

record DecisionLog =
  log_transaction_id :: string
  log_council_action :: string
  log_student_would_predict :: string
  log_confidence :: real

record 'm OnlineLearner =
  confidence_threshold :: real
  model :: 'm
  samples_seen :: int
  correct_predictions :: int
  confidence_history :: "real list"
  recent_decisions :: "DecisionLog list"

text \<open>\<open>dict.get(key, default)\<close> on an association list.\<close>

definition dict_get :: "('k \<times> 'v) list \<Rightarrow> 'k \<Rightarrow> 'v \<Rightarrow> 'v" where
  "dict_get d k dflt = (case map_of d k of None \<Rightarrow> dflt | Some v \<Rightarrow> v)"

definition BANK_MAP :: "(string \<times> int) list" where
  "BANK_MAP = [(''HDFC'', 0), (''ICICI'', 1), (''SBI'', 2), (''Axis'', 3), (''Kotak'', 4),
               (''Yes Bank'', 5), (''PNB'', 6), (''BOB'', 7)]"

definition METHOD_MAP :: "(string \<times> int) list" where
  "METHOD_MAP = [(''credit_card'', 0), (''debit_card'', 1), (''upi'', 2),
                 (''net_banking'', 3), (''wallet'', 4)]"

definition ERROR_MAP :: "(string \<times> int) list" where
  "ERROR_MAP = [(''E001_TIMEOUT'', 0), (''E002_INSUFFICIENT_FUNDS'', 1),
                (''E003_BANK_DECLINED'', 2), (''E004_NETWORK_ERROR'', 3),
                (''E005_FRAUD_SUSPECTED'', 4), (''E006_LIMIT_EXCEEDED'', 5)]"

definition ACTION_MAP :: "(ActionType \<times> int) list" where
  "ACTION_MAP = [(SWITCH_GATEWAY, 0), (INCREASE_RETRY, 1), (BLOCK_MERCHANT, 2),
                 (REDUCE_LOAD, 3), (NO_ACTION, 4)]"

definition REVERSE_ACTION_MAP :: "(int \<times> ActionType) list" where
  "REVERSE_ACTION_MAP = map (\<lambda>(k, v). (v, k)) ACTION_MAP"

text \<open>A \<open>deque(maxlen=n)\<close>: \<open>append\<close> on a full deque drops from the left.\<close>

definition deque_append :: "nat \<Rightarrow> 'a list \<Rightarrow> 'a \<Rightarrow> 'a list" where
  "deque_append maxlen d x = (let ys = d @ [x] in drop (length ys - maxlen) ys)"

definition deque_of :: "nat \<Rightarrow> 'a list \<Rightarrow> 'a list" where
  "deque_of maxlen xs = drop (length xs - maxlen) xs"

definition OnlineLearner_init :: "'m river \<Rightarrow> real \<Rightarrow> 'm OnlineLearner" where
  "OnlineLearner_init R threshold =
     \<lparr>confidence_threshold = threshold, model = fresh R, samples_seen = 0,
      correct_predictions = 0, confidence_history = [], recent_decisions = []\<rparr>"

definition extract_features :: "Transaction \<Rightarrow> features" where
  "extract_features transaction =
     [(''amount'', amount transaction),
      (''amount_log'', sqrt (max 1 (amount transaction))),
      (''bank'', of_int (dict_get BANK_MAP (bank_name transaction) 7)),
      (''method'', of_int (dict_get METHOD_MAP (PaymentMethod_value (payment_method transaction)) 4)),
      (''error'', (case error_code transaction of
                     None \<Rightarrow> - 1
                   | Some c \<Rightarrow> if c = [] then - 1 else of_int (dict_get ERROR_MAP c 5))),
      (''latency'', of_int (latency_ms transaction)),
      (''is_high_value'', if amount transaction > 10000 then 1 else 0),
      (''is_timeout'', if error_code transaction = Some ''E001_TIMEOUT'' then 1 else 0),
      (''is_fraud_suspect'', if error_code transaction = Some ''E005_FRAUD_SUSPECTED'' then 1 else 0)]"

text \<open>
  \<open>max(probas, key=probas.get)\<close>: the first entry, in iteration order, whose value no
  later entry exceeds. The keys of a dict are distinct, so the value of the winning entry
  is \<open>probas[best_class]\<close>.
\<close>

fun max_by_value :: "('k \<times> real) \<Rightarrow> ('k \<times> real) list \<Rightarrow> ('k \<times> real)" where
  "max_by_value best [] = best"
| "max_by_value best (x # xs) = max_by_value (if snd x > snd best then x else best) xs"

text \<open>
  \<open>predict\<close>: the body of the \<open>try\<close> raises only where \<open>predict_proba_one\<close> does, and
  the handler returns the untrained answer. The learner is returned with the pipeline as
  the call left it and, on the normal path, the confidence appended to the history.
\<close>

definition predict :: "'m river \<Rightarrow> 'm OnlineLearner \<Rightarrow> Transaction \<Rightarrow> (ActionType \<times> real) \<times> 'm OnlineLearner" where
  "predict R self transaction =
     (let features = extract_features transaction;
          (res, m') = predict_proba_one R (model self) features;
          self1 = self\<lparr>model := m'\<rparr>
      in case res of
           Inl e \<Rightarrow> ((NO_ACTION, 0), self1)
         | Inr probas \<Rightarrow>
             (case probas of
                [] \<Rightarrow> ((NO_ACTION, 0), self1)
              | p # ps \<Rightarrow>
                  (let best = max_by_value p ps;
                       best_class = fst best;
                       confidence = snd best;
                       act = dict_get REVERSE_ACTION_MAP best_class NO_ACTION
                   in ((act, confidence),
                       self1\<lparr>confidence_history :=
                                deque_append 100 (confidence_history self1) confidence\<rparr>))))"

definition learn :: "'m river \<Rightarrow> 'm OnlineLearner \<Rightarrow> Transaction \<Rightarrow> Decision \<Rightarrow> 'm OnlineLearner" where
  "learn R self transaction council_decision =
     (let features = extract_features transaction;
          label = dict_get ACTION_MAP (action council_decision) 4;
          ((predicted_action, confidence), s1) = predict R self transaction;
          s2 = (if predicted_action = action council_decision
                then s1\<lparr>correct_predictions := correct_predictions s1 + 1\<rparr> else s1);
          s3 = s2\<lparr>model := learn_one R (model s2) features label\<rparr>;
          s4 = s3\<lparr>samples_seen := samples_seen s3 + 1\<rparr>
      in s4\<lparr>recent_decisions := deque_append 50 (recent_decisions s4)
               \<lparr>log_transaction_id = txn_id transaction,
                log_council_action = ActionType_value (action council_decision),
                log_student_would_predict = ActionType_value predicted_action,
                log_confidence = confidence\<rparr>\<rparr>)"

definition get_average_confidence :: "'m OnlineLearner \<Rightarrow> real" where
  "get_average_confidence self =
     (if confidence_history self = [] then 0
      else sum_list (confidence_history self) / of_nat (length (confidence_history self)))"

definition get_accuracy :: "'m OnlineLearner \<Rightarrow> real" where
  "get_accuracy self =
     (if samples_seen self = 0 then 0
      else of_int (correct_predictions self) / of_int (samples_seen self))"

definition is_confident :: "'m river \<Rightarrow> 'm OnlineLearner \<Rightarrow> Transaction \<Rightarrow> (bool \<times> ActionType \<times> real) \<times> 'm OnlineLearner" where
  "is_confident R self transaction =
     (let ((act, confidence), s1) = predict R self transaction;
          is_conf = (confidence \<ge> confidence_threshold s1 \<and> samples_seen s1 \<ge> 20)
      in ((is_conf, act, confidence), s1))"

record Stats =
  stats_samples_seen :: int
  stats_accuracy :: real
  stats_average_confidence :: real
  stats_confidence_threshold :: real
  stats_is_ready :: bool
  stats_recent_decisions :: "DecisionLog list"

definition get_stats :: "'m OnlineLearner \<Rightarrow> Stats" where
  "get_stats self =
     \<lparr>stats_samples_seen = samples_seen self,
      stats_accuracy = get_accuracy self,
      stats_average_confidence = get_average_confidence self,
      stats_confidence_threshold = confidence_threshold self,
      stats_is_ready = (samples_seen self \<ge> 20),
      stats_recent_decisions =
        drop (length (recent_decisions self) - 5) (recent_decisions self)\<rparr>"

subsection \<open>Sequences of calls on one learner\<close>

text \<open>
  A client of the learner calls \<open>predict\<close>, \<open>learn\<close>, \<open>is_confident\<close> and \<open>get_stats\<close> in any
  order. \<open>get_stats\<close> only reads its object, so the learner after it is the learner before.
\<close>

datatype call =
    CallPredict Transaction
  | CallLearn Transaction Decision
  | CallIsConfident Transaction
  | CallGetStats

fun do_call :: "'m river \<Rightarrow> 'm OnlineLearner \<Rightarrow> call \<Rightarrow> 'm OnlineLearner" where
  "do_call R self (CallPredict t) = snd (predict R self t)"
| "do_call R self (CallLearn t d) = learn R self t d"
| "do_call R self (CallIsConfident t) = snd (is_confident R self t)"
| "do_call R self CallGetStats = self"

definition run_calls :: "'m river \<Rightarrow> 'm OnlineLearner \<Rightarrow> call list \<Rightarrow> 'm OnlineLearner" where
  "run_calls R self cs = foldl (do_call R) self cs"

fun is_learn :: "call \<Rightarrow> bool" where
  "is_learn (CallLearn t d) = True"
| "is_learn c = False"

subsection \<open>Saving and loading the learner\<close>

text \<open>
  The disk maps a path to what \<open>pickle.load\<close> finds there: the four entries \<open>save\<close> dumps
  (pickling is taken to give back the pipeline it was given), or a file that cannot be
  opened or unpickled. \<open>open(filepath, 'wb')\<close> raises where the path is not writable.
\<close>

datatype 'm blob = Pickled 'm int int "real list" | Unreadable

record 'm disk =
  files :: "string \<rightharpoonup> 'm blob"
  writable :: "string \<Rightarrow> bool"

definition save :: "'m OnlineLearner \<Rightarrow> string \<Rightarrow> 'm disk \<Rightarrow> exn + 'm disk" where
  "save self filepath dk =
     (if writable dk filepath
      then Inr (dk\<lparr>files := (files dk)(filepath \<mapsto>
                  Pickled (model self) (samples_seen self) (correct_predictions self)
                    (confidence_history self))\<rparr>)
      else Inl OSError)"

definition load :: "'m OnlineLearner \<Rightarrow> string \<Rightarrow> 'm disk \<Rightarrow> bool \<times> 'm OnlineLearner" where
  "load self filepath dk =
     (case files dk filepath of
        None \<Rightarrow> (False, self)
      | Some Unreadable \<Rightarrow> (False, self)
      | Some (Pickled m n c h) \<Rightarrow>
          (True, self\<lparr>model := m, samples_seen := n, correct_predictions := c,
                      confidence_history := deque_of 100 h\<rparr>))"

text \<open>The answers of \<open>predict\<close> on a sequence of test transactions, one after the other.\<close>

fun predict_all :: "'m river \<Rightarrow> 'm OnlineLearner \<Rightarrow> Transaction list \<Rightarrow> (ActionType \<times> real) list" where
  "predict_all R self [] = []"
| "predict_all R self (t # ts) =
     (case predict R self t of (out, self') \<Rightarrow> out # predict_all R self' ts)"

section \<open>The Python runtime\<close>

text \<open>
  What the model leaves to the Python runtime is a parameter: how a float is written
  (\<open>str\<close>, \<open>.2f\<close>, \<open>.1%\<close>), how \<open>float\<close> reads a string, the order in which a set of
  strings is iterated (\<open>set_iter\<close> takes the elements in the order they were added), and
  how \<open>str.format\<close> renders a value it has found when the field carries an attribute or
  index, a conversion or a format spec (\<open>fmt_field\<close> takes \<open>str\<close> of the value and these
  three). Strings are byte strings, in UTF-8.
\<close>

record pyrt =
  str_float :: "real \<Rightarrow> string"
  fmt_2f :: "real \<Rightarrow> string"
  fmt_pct1 :: "real \<Rightarrow> string"
  float_of_str :: "string \<Rightarrow> real option"
  set_iter :: "string list \<Rightarrow> string list"
  fmt_field :: "string \<Rightarrow> string \<Rightarrow> char option \<Rightarrow> string \<Rightarrow> exn + string"

fun str_nat :: "nat \<Rightarrow> string" where
  "str_nat n = (if n < 10 then [''0123456789'' ! n]
                else str_nat (n div 10) @ [''0123456789'' ! (n mod 10)])"

declare str_nat.simps [simp del]

definition str_int :: "int \<Rightarrow> string" where
  "str_int i = (if i < 0 then ''-'' @ str_nat (nat (- i)) else str_nat (nat i))"

section \<open>The council (backend/council.py)\<close>

subsection \<open>\<open>str.format\<close>\<close>

text \<open>
  \<open>str.format\<close> with keyword arguments only, as CPython scans the template: literal text
  with the escapes \<open>{{\<close> and \<open>}}\<close>, then a replacement field whose name ends at \<open>!\<close>, \<open>:\<close>
  or \<open>}\<close> (a bracket runs to its \<open>]\<close>), an optional conversion and a format spec that ends
  at the matching \<open>}\<close>. Each field is looked up and rendered before the scan goes on, so
  the first failing field decides the exception. The accumulators hold their text in
  reverse.
\<close>

datatype fmt_mode =
    Text
  | Field string
  | Bracket string
  | Conv string
  | ConvEnd string char
  | Spec string "char option" string nat

definition is_digits :: "string \<Rightarrow> bool" where
  "is_digits s = list_all (\<lambda>c. c \<in> set ''0123456789'') s"

text \<open>
  The value of a field: the name up to the first \<open>.\<close> or \<open>[\<close> is the key. An empty or
  numeric key is positional, and there are no positional arguments; a key that is not a
  keyword raises \<open>KeyError\<close>.
\<close>

definition get_field :: "pyrt \<Rightarrow> (string \<times> string) list \<Rightarrow> string \<Rightarrow> char option \<Rightarrow> string \<Rightarrow> exn + string" where
  "get_field P kwargs field_name conversion format_spec =
     (let first = takeWhile (\<lambda>c. c \<noteq> CHR ''.'' \<and> c \<noteq> CHR ''['') field_name;
          rest = dropWhile (\<lambda>c. c \<noteq> CHR ''.'' \<and> c \<noteq> CHR ''['') field_name
      in if is_digits first then Inl IndexError
         else (case map_of kwargs first of
                 None \<Rightarrow> Inl (KeyError first)
               | Some v \<Rightarrow>
                   if rest = [] \<and> conversion = None \<and> format_spec = [] then Inr v
                   else fmt_field P v rest conversion format_spec))"

fun format_scan :: "pyrt \<Rightarrow> (string \<times> string) list \<Rightarrow> fmt_mode \<Rightarrow> string \<Rightarrow> string \<Rightarrow> exn + string" where
  "format_scan P kw Text out [] = Inr (rev out)"
| "format_scan P kw Text out [c] =
     (if c = CHR ''{'' then Inl (ValueError ''Single '{' encountered in format string'')
      else if c = CHR ''}'' then Inl (ValueError ''Single '}' encountered in format string'')
      else Inr (rev (c # out)))"
| "format_scan P kw Text out (c # d # cs) =
     (if c = CHR ''{'' then
        (if d = CHR ''{'' then format_scan P kw Text (c # out) cs
         else format_scan P kw (Field []) out (d # cs))
      else if c = CHR ''}'' then
        (if d = CHR ''}'' then format_scan P kw Text (c # out) cs
         else Inl (ValueError ''Single '}' encountered in format string''))
      else format_scan P kw Text (c # out) (d # cs))"
| "format_scan P kw (Field name) out [] =
     Inl (ValueError ''expected '}' before end of string'')"
| "format_scan P kw (Field name) out (c # cs) =
     (if c = CHR ''{'' then Inl (ValueError ''unexpected '{' in field name'')
      else if c = CHR ''['' then format_scan P kw (Bracket (c # name)) out cs
      else if c = CHR ''}'' then
        (case get_field P kw (rev name) None [] of
           Inl e \<Rightarrow> Inl e
         | Inr v \<Rightarrow> format_scan P kw Text (rev v @ out) cs)
      else if c = CHR '':'' then format_scan P kw (Spec name None [] 1) out cs
      else if c = CHR ''!'' then format_scan P kw (Conv name) out cs
      else format_scan P kw (Field (c # name)) out cs)"
| "format_scan P kw (Bracket name) out [] =
     Inl (ValueError ''expected '}' before end of string'')"
| "format_scan P kw (Bracket name) out (c # cs) =
     (if c = CHR '']'' then format_scan P kw (Field (c # name)) out cs
      else format_scan P kw (Bracket (c # name)) out cs)"
| "format_scan P kw (Conv name) out [] =
     Inl (ValueError ''end of string while looking for conversion specifier'')"
| "format_scan P kw (Conv name) out (c # cs) = format_scan P kw (ConvEnd name c) out cs"
| "format_scan P kw (ConvEnd name conv) out [] =
     Inl (ValueError ''unmatched '{' in format spec'')"
| "format_scan P kw (ConvEnd name conv) out (c # cs) =
     (if c = CHR ''}'' then
        (case get_field P kw (rev name) (Some conv) [] of
           Inl e \<Rightarrow> Inl e
         | Inr v \<Rightarrow> format_scan P kw Text (rev v @ out) cs)
      else if c = CHR '':'' then format_scan P kw (Spec name (Some conv) [] 1) out cs
      else Inl (ValueError ''expected ':' after conversion specifier''))"
| "format_scan P kw (Spec name conv spec count) out [] =
     Inl (ValueError ''unmatched '{' in format spec'')"
| "format_scan P kw (Spec name conv spec count) out (c # cs) =
     (if c = CHR ''{'' then format_scan P kw (Spec name conv (c # spec) (count + 1)) out cs
      else if c = CHR ''}'' then
        (if count = 1 then
           (case get_field P kw (rev name) conv (rev spec) of
              Inl e \<Rightarrow> Inl e
            | Inr v \<Rightarrow> format_scan P kw Text (rev v @ out) cs)
         else format_scan P kw (Spec name conv (c # spec) (count - 1)) out cs)
      else format_scan P kw (Spec name conv (c # spec) count) out cs)"

definition str_format :: "pyrt \<Rightarrow> string \<Rightarrow> (string \<times> string) list \<Rightarrow> exn + string" where
  "str_format P template kwargs = format_scan P kwargs Text [] template"

subsection \<open>Parsed JSON and the validating constructors\<close>

datatype json =
    JNull
  | JBool bool
  | JInt int
  | JFloat real
  | JStr string
  | JArr "json list"
  | JObj "(string \<times> json) list"

text \<open>\<open>response.get(key, default)\<close>: only a dict has \<open>get\<close>.\<close>

definition json_get :: "json \<Rightarrow> string \<Rightarrow> json \<Rightarrow> exn + json" where
  "json_get response k dflt =
     (case response of
        JObj d \<Rightarrow> Inr (dict_get d k dflt)
      | _ \<Rightarrow> Inl AttributeError)"

text \<open>\<open>ActionType(value)\<close>: the member with that value, or \<open>ValueError\<close>.\<close>

definition ActionType_of :: "json \<Rightarrow> exn + ActionType" where
  "ActionType_of v =
     (case v of
        JStr s \<Rightarrow>
          (case map_of (map (\<lambda>a. (ActionType_value a, a))
                          [SWITCH_GATEWAY, INCREASE_RETRY, BLOCK_MERCHANT, REDUCE_LOAD, NO_ACTION]) s of
             None \<Rightarrow> Inl (ValueError (s @ '' is not a valid ActionType''))
           | Some a \<Rightarrow> Inr a)
      | _ \<Rightarrow> Inl (ValueError ''not a valid ActionType''))"

text \<open>\<open>float(value)\<close> on a parsed JSON value.\<close>

definition py_float :: "pyrt \<Rightarrow> json \<Rightarrow> exn + real" where
  "py_float P v =
     (case v of
        JInt i \<Rightarrow> Inr (of_int i)
      | JFloat x \<Rightarrow> Inr x
      | JBool b \<Rightarrow> Inr (if b then 1 else 0)
      | JStr s \<Rightarrow> (case float_of_str P s of
                     None \<Rightarrow> Inl (ValueError ''could not convert string to float'')
                   | Some x \<Rightarrow> Inr x)
      | _ \<Rightarrow> Inl TypeError)"

text \<open>A field declared \<open>str\<close> takes a string and nothing else.\<close>

definition str_field :: "json \<Rightarrow> exn + string" where
  "str_field v = (case v of JStr s \<Rightarrow> Inr s | _ \<Rightarrow> Inl ValidationError)"

text \<open>
  \<open>AgentArgument(agent_name=..., stance=..., argument=..., suggested_action=ActionType(...))\<close>
  on a role's response: the three \<open>get\<close> and \<open>ActionType\<close> are evaluated first, then the
  constructor validates.
\<close>

definition AgentArgument_of :: "string \<Rightarrow> json \<Rightarrow> exn + AgentArgument" where
  "AgentArgument_of name response =
     (case json_get response ''stance'' (JStr ''moderate'') of
        Inl e \<Rightarrow> Inl e
      | Inr st \<Rightarrow>
     (case json_get response ''argument'' (JStr ''No argument provided'') of
        Inl e \<Rightarrow> Inl e
      | Inr ar \<Rightarrow>
     (case json_get response ''suggested_action'' (JStr ''no_action'') of
        Inl e \<Rightarrow> Inl e
      | Inr sa \<Rightarrow>
     (case ActionType_of sa of
        Inl e \<Rightarrow> Inl e
      | Inr a \<Rightarrow>
     (case str_field st of
        Inl e \<Rightarrow> Inl e
      | Inr s \<Rightarrow>
     (case str_field ar of
        Inl e \<Rightarrow> Inl e
      | Inr g \<Rightarrow>
          Inr \<lparr>agent_name = name, stance = s, argument = g, suggested_action = a\<rparr>))))))"

subsection \<open>LLMCouncil\<close>

text \<open>The bytes of the three characters the source has before an amount.\<close>

definition rupee :: string where
  "rupee = [CHR 0xE2, CHR 0x80, CHR 0x9A, CHR 0xC3, CHR 0x87, CHR 0xCF, CHR 0x80]"

definition RISK_AGENT_PROMPT :: string where
  \<open>RISK_AGENT_PROMPT =
     ''You are the RISK AGENT in a payment operations council.\<newline>'' @
     ''Your personality: Paranoid, security-focused, hates fraud.\<newline>'' @
     ''Your priority: Protect the system from fraud and abuse at all costs.\<newline>'' @
     ''You would rather block a legitimate transaction than let a fraudulent one through.\<newline>'' @
     ''\<newline>'' @
     ''Analyze the failed transactions and argue for the most CONSERVATIVE action.\<newline>'' @
     ''Consider: fraud patterns, unusual amounts, bank reliability, error patterns.\<newline>'' @
     ''\<newline>'' @
     ''Respond in JSON format:\<newline>'' @
     ''{\<newline>'' @
     ''    "stance": "conservative/moderate/aggressive",\<newline>'' @
     ''    "argument": "Your reasoning in 2-3 sentences",\<newline>'' @
     ''    "suggested_action": "switch_gateway|increase_retry|block_merchant|reduce_load|no_action"\<newline>'' @
     ''}''\<close>

definition GROWTH_AGENT_PROMPT :: string where
  \<open>GROWTH_AGENT_PROMPT =
     ''You are the GROWTH AGENT in a payment operations council.\<newline>'' @
     ''Your personality: Revenue-obsessed, hates lost sales, aggressive optimizer.\<newline>'' @
     ''Your priority: Maximize successful transactions and revenue recovery.\<newline>'' @
     ''Every failed transaction is lost money that must be recovered.\<newline>'' @
     ''\<newline>'' @
     ''Analyze the failed transactions and argue for the most AGGRESSIVE recovery action.\<newline>'' @
     ''Consider: revenue impact, retry success probability, customer experience.\<newline>'' @
     ''\<newline>'' @
     ''Respond in JSON format:\<newline>'' @
     ''{\<newline>'' @
     ''    "stance": "conservative/moderate/aggressive",\<newline>'' @
     ''    "argument": "Your reasoning in 2-3 sentences",\<newline>'' @
     ''    "suggested_action": "switch_gateway|increase_retry|block_merchant|reduce_load|no_action"\<newline>'' @
     ''}''\<close>

definition MANAGER_AGENT_PROMPT :: string where
  \<open>MANAGER_AGENT_PROMPT =
     ''You are the MANAGER AGENT in a payment operations council.\<newline>'' @
     ''You must synthesize the arguments from the Risk Agent and Growth Agent.\<newline>'' @
     ''Make a balanced decision that optimizes for both security AND revenue.\<newline>'' @
     ''\<newline>'' @
     ''Risk Agent's position:\<newline>'' @
     ''{risk_argument}\<newline>'' @
     ''\<newline>'' @
     ''Growth Agent's position:\<newline>'' @
     ''{growth_argument}\<newline>'' @
     ''\<newline>'' @
     ''Failed transaction context:\<newline>'' @
     ''- Total failed: {failed_count}\<newline>'' @
     ''- Common error: {common_error}\<newline>'' @
     ''- Affected banks: {affected_banks}\<newline>'' @
     ''- Total amount at risk: '' @ rupee @ ''{total_amount}\<newline>'' @
     ''\<newline>'' @
     ''Make the FINAL decision. Respond in JSON format:\<newline>'' @
     ''{\<newline>'' @
     ''    "synthesis": "Your balanced reasoning in 2-3 sentences",\<newline>'' @
     ''    "final_action": "switch_gateway|increase_retry|block_merchant|reduce_load|no_action",\<newline>'' @
     ''    "confidence": 0.0-1.0\<newline>'' @
     ''}''\<close>

text \<open>
  The backend is the body of the \<open>try\<close> in \<open>_call_agent\<close>: the chat completion and
  \<open>json.loads\<close> of its content, which give a parsed value or raise. It is given the number
  of the call within the debate, since two calls need not answer alike.
\<close>

type_synonym backend = "nat \<Rightarrow> string \<Rightarrow> string \<Rightarrow> exn + json"

definition fallback_response :: json where
  "fallback_response =
     JObj [(''stance'', JStr ''moderate''),
           (''argument'', JStr ''Unable to analyze due to API error''),
           (''suggested_action'', JStr ''no_action'')]"

definition call_agent :: "backend \<Rightarrow> nat \<Rightarrow> string \<Rightarrow> string \<Rightarrow> json" where
  "call_agent B n system_prompt context =
     (case B n system_prompt context of
        Inl e \<Rightarrow> fallback_response
      | Inr response \<Rightarrow> response)"

definition join :: "string \<Rightarrow> string list \<Rightarrow> string" where
  "join sep xs = (case xs of [] \<Rightarrow> [] | y # ys \<Rightarrow> foldl (\<lambda>acc s. acc @ sep @ s) y ys)"

text \<open>\<open>max(set(errors), key=errors.count)\<close>: the first element, in the set's order, that no later one beats.\<close>

fun max_by_count :: "string list \<Rightarrow> string \<Rightarrow> string list \<Rightarrow> string" where
  "max_by_count errors best [] = best"
| "max_by_count errors best (x # xs) =
     max_by_count errors (if count_list errors x > count_list errors best then x else best) xs"

definition error_codes :: "Transaction list \<Rightarrow> string list" where
  "error_codes txns =
     concat (map (\<lambda>t. case error_code t of None \<Rightarrow> [] | Some c \<Rightarrow> if c = [] then [] else [c]) txns)"

text \<open>The set of a non-empty list is not empty, so \<open>max\<close> has a first element.\<close>

definition common_error_of :: "pyrt \<Rightarrow> Transaction list \<Rightarrow> string" where
  "common_error_of P txns =
     (case set_iter P (error_codes txns) of
        [] \<Rightarrow> ''Unknown''
      | e # es \<Rightarrow> max_by_count (error_codes txns) e es)"

fun context_lines :: "pyrt \<Rightarrow> nat \<Rightarrow> Transaction list \<Rightarrow> string list" where
  "context_lines P i [] = []"
| "context_lines P i (txn # txns) =
     (str_nat i @ ''. Bank: '' @ bank_name txn @ '', Amount: '' @ rupee @ str_float P (amount txn)
        @ '', Error: '' @ (case error_code txn of None \<Rightarrow> ''None'' | Some c \<Rightarrow> c)
        @ '', Method: '' @ PaymentMethod_value (payment_method txn))
     # context_lines P (i + 1) txns"

definition prepare_context :: "pyrt \<Rightarrow> Transaction list \<Rightarrow> string" where
  "prepare_context P failed_txns =
     (if failed_txns = [] then ''No failed transactions to analyze.''
      else
        (let total_amount = sum_list (map amount failed_txns);
             banks = set_iter P (map bank_name failed_txns)
         in join ''\<newline>''
              ([''Failed Transaction Analysis:'']
               @ context_lines P 1 (take 10 failed_txns)
               @ [''\<newline>Summary: '' @ str_nat (length failed_txns) @ '' failures, '' @ rupee
                    @ fmt_2f P total_amount @ '' at risk, Banks: '' @ join '', '' banks])))"

text \<open>
  \<open>debate\<close>. \<open>elapsed_ms\<close> is what the two readings of the clock give. \<open>sum\<close> of no amounts
  is the integer 0.
\<close>

definition LLMCouncil_debate :: "pyrt \<Rightarrow> backend \<Rightarrow> int \<Rightarrow> Transaction list \<Rightarrow> exn + CouncilDebate" where
  "LLMCouncil_debate P B elapsed_ms failed_txns =
     (let context = prepare_context P failed_txns;
          risk_response = call_agent B 0 RISK_AGENT_PROMPT context
      in case AgentArgument_of ''Risk Agent'' risk_response of
        Inl e \<Rightarrow> Inl e
      | Inr risk_arg \<Rightarrow>
     (let growth_response = call_agent B 1 GROWTH_AGENT_PROMPT context
      in case AgentArgument_of ''Growth Agent'' growth_response of
        Inl e \<Rightarrow> Inl e
      | Inr growth_arg \<Rightarrow>
     (let total_amount = (if failed_txns = [] then ''0''
                          else str_float P (sum_list (map amount failed_txns)));
          banks = set_iter P (map bank_name failed_txns);
          common_error = common_error_of P failed_txns
      in case str_format P MANAGER_AGENT_PROMPT
                [(''risk_argument'', stance risk_arg @ '': '' @ argument risk_arg),
                 (''growth_argument'', stance growth_arg @ '': '' @ argument growth_arg),
                 (''failed_count'', str_nat (length failed_txns)),
                 (''common_error'', common_error),
                 (''affected_banks'', join '', '' banks),
                 (''total_amount'', total_amount)] of
        Inl e \<Rightarrow> Inl e
      | Inr manager_prompt \<Rightarrow>
     (let manager_response = call_agent B 2 manager_prompt context
      in case json_get manager_response ''final_action'' (JStr ''no_action'') of
        Inl e \<Rightarrow> Inl e
      | Inr fa \<Rightarrow>
     (case ActionType_of fa of
        Inl e \<Rightarrow> Inl e
      | Inr act \<Rightarrow>
     (case json_get manager_response ''synthesis'' (JStr ''No synthesis provided'') of
        Inl e \<Rightarrow> Inl e
      | Inr syn \<Rightarrow>
     (case json_get manager_response ''confidence'' (JFloat 0.5) of
        Inl e \<Rightarrow> Inl e
      | Inr cf \<Rightarrow>
     (case py_float P cf of
        Inl e \<Rightarrow> Inl e
      | Inr conf \<Rightarrow>
     (case str_field syn of
        Inl e \<Rightarrow> Inl e
      | Inr reason \<Rightarrow>
     (case Decision_new act reason conf TEACHER of
        Inl e \<Rightarrow> Inl e
      | Inr decision \<Rightarrow>
     (case json_get manager_response ''synthesis'' (JStr []) of
        Inl e \<Rightarrow> Inl e
      | Inr syn2 \<Rightarrow>
     (case str_field syn2 of
        Inl e \<Rightarrow> Inl e
      | Inr synthesis \<Rightarrow>
          Inr \<lparr>risk_argument = risk_arg, growth_argument = growth_arg,
               manager_synthesis = synthesis, final_decision = decision,
               debate_duration_ms = elapsed_ms\<rparr>))))))))))))"

subsection \<open>MockCouncil (backend/council.py)\<close>

text \<open>
  The three random draws of \<open>MockCouncil.debate\<close> are its first arguments:
  \<open>random.choice(actions)\<close>, \<open>random.uniform(0.6, 0.95)\<close> and \<open>random.randint(500, 2000)\<close>.
\<close>

definition MockCouncil_debate :: "ActionType \<Rightarrow> real \<Rightarrow> int \<Rightarrow> Transaction list \<Rightarrow> exn + CouncilDebate" where
  "MockCouncil_debate selected_action uniform randint failed_txns =
     (case Decision_new selected_action ''Synthesized decision based on risk-reward analysis''
             uniform TEACHER of
        Inl e \<Rightarrow> Inl e
      | Inr decision \<Rightarrow>
          Inr \<lparr>risk_argument =
                 \<lparr>agent_name = ''Risk Agent'', stance = ''conservative'',
                  argument = ''High failure rate detected. Recommend blocking to prevent fraud.'',
                  suggested_action = BLOCK_MERCHANT\<rparr>,
               growth_argument =
                 \<lparr>agent_name = ''Growth Agent'', stance = ''aggressive'',
                  argument = ''Revenue at risk! We must retry these transactions immediately.'',
                  suggested_action = INCREASE_RETRY\<rparr>,
               manager_synthesis =
                 ''Balanced approach: switch gateway to recover revenue while monitoring for fraud.'',
               final_decision = decision,
               debate_duration_ms = randint\<rparr>)"

section \<open>The router (backend/main.py)\<close>

definition FAILURE_THRESHOLD :: nat where
  "FAILURE_THRESHOLD = 5"

definition STUDENT_CONFIDENCE_THRESHOLD :: real where
  "STUDENT_CONFIDENCE_THRESHOLD = 0.90"

text \<open>
  \<open>AppState\<close> keeps the learner, the metrics and \<open>recent_failures\<close>. The council is a
  parameter of the router: \<open>debate\<close> maps the batch to a \<open>CouncilDebate\<close> or raises.
\<close>

record 'm AppState =
  learner :: "'m OnlineLearner"
  metrics :: SystemMetrics
  recent_failures :: "Transaction list"

definition SystemMetrics_init :: SystemMetrics where
  "SystemMetrics_init =
     \<lparr>total_transactions = 0, successful_transactions = 0, failed_transactions = 0,
      success_rate = 0, student_decisions = 0, teacher_decisions = 0,
      student_confidence = 0, chaos_active = False, chaos_bank = None\<rparr>"

definition AppState_init :: "'m river \<Rightarrow> 'm AppState" where
  "AppState_init R =
     \<lparr>learner = OnlineLearner_init R STUDENT_CONFIDENCE_THRESHOLD,
      metrics = SystemMetrics_init, recent_failures = []\<rparr>"

text \<open>
  The effects of one call, in program order: the four kinds of broadcast (with the
  transaction id and the \<open>brain\<close> tag a decision is sent with) and the call of the council
  with the batch it is given.
\<close>

datatype effect =
    Emit_transaction Transaction
  | Emit_decision Decision string AgentSource
  | Emit_council_debate CouncilDebate
  | Emit_metrics SystemMetrics
  | Council_debate "Transaction list"

text \<open>
  \<open>process_transaction\<close> returns the state it leaves, its effects and the exception it
  raised, if any. One call runs to its end before the next starts.
\<close>

definition process_transaction ::
  "pyrt \<Rightarrow> 'm river \<Rightarrow> (Transaction list \<Rightarrow> exn + CouncilDebate) \<Rightarrow> 'm AppState \<Rightarrow> Transaction
     \<Rightarrow> 'm AppState \<times> effect list \<times> exn option" where
  "process_transaction P R debate state txn =
     (let m1 = (metrics state)\<lparr>total_transactions := total_transactions (metrics state) + 1\<rparr>;
          m2 = (if status txn = SUCCESS
                then m1\<lparr>successful_transactions := successful_transactions m1 + 1\<rparr>
                else m1\<lparr>failed_transactions := failed_transactions m1 + 1\<rparr>);
          buf = (if status txn = SUCCESS then recent_failures state
                 else recent_failures state @ [txn]);
          m3 = (if total_transactions m2 > 0
                then m2\<lparr>success_rate :=
                        of_int (successful_transactions m2) / of_int (total_transactions m2)\<rparr>
                else m2);
          st1 = state\<lparr>metrics := m3, recent_failures := buf\<rparr>;
          tr1 = [Emit_transaction txn]
      in if status txn \<noteq> FAILED then (st1, tr1 @ [Emit_metrics (metrics st1)], None)
         else
           (let ((is_conf, predicted_action, confidence), l1) = is_confident R (learner st1) txn;
                st2 = st1\<lparr>learner := l1, metrics := (metrics st1)\<lparr>student_confidence := confidence\<rparr>\<rparr>
            in if is_conf then
                 (case Decision_new predicted_action
                         (''Student model confident ('' @ fmt_pct1 P confidence @ '') based on ''
                            @ str_int (samples_seen (learner st2)) @ '' samples'')
                         confidence STUDENT of
                    Inl e \<Rightarrow> (st2, tr1, Some e)
                  | Inr decision \<Rightarrow>
                      (let st3 = st2\<lparr>metrics := (metrics st2)\<lparr>student_decisions :=
                                         student_decisions (metrics st2) + 1\<rparr>\<rparr>
                       in (st3,
                           tr1 @ [Emit_decision decision (txn_id txn) (agent_source decision),
                                  Emit_metrics (metrics st3)],
                           None)))
               else if length (recent_failures st2) \<ge> FAILURE_THRESHOLD then
                 (case debate (recent_failures st2) of
                    Inl e \<Rightarrow> (st2, tr1 @ [Council_debate (recent_failures st2)], Some e)
                  | Inr d \<Rightarrow>
                      (let decision = final_decision d;
                           st3 = st2\<lparr>metrics := (metrics st2)\<lparr>teacher_decisions :=
                                         teacher_decisions (metrics st2) + 1\<rparr>\<rparr>;
                           l2 = foldl (\<lambda>l failed_txn. learn R l failed_txn decision)
                                  (learner st3) (recent_failures st3);
                           st4 = st3\<lparr>learner := l2, recent_failures := []\<rparr>
                       in (st4,
                           tr1 @ [Council_debate (recent_failures st2), Emit_council_debate d,
                                  Emit_decision decision (txn_id txn) (agent_source decision),
                                  Emit_metrics (metrics st4)],
                           None)))
               else (st2, tr1 @ [Emit_metrics (metrics st2)], None)))"

text \<open>
  \<open>transaction_loop\<close> on the transactions the simulator produced: an exception that leaves
  \<open>process_transaction\<close> ends the loop.
\<close>

fun transaction_loop ::
  "pyrt \<Rightarrow> 'm river \<Rightarrow> (Transaction list \<Rightarrow> exn + CouncilDebate) \<Rightarrow> 'm AppState \<Rightarrow> Transaction list
     \<Rightarrow> 'm AppState \<times> effect list \<times> exn option" where
  "transaction_loop P R debate state [] = (state, [], None)"
| "transaction_loop P R debate state (txn # txns) =
     (case process_transaction P R debate state txn of
        (st', tr, Some e) \<Rightarrow> (st', tr, Some e)
      | (st', tr, None) \<Rightarrow>
          (case transaction_loop P R debate st' txns of
             (st'', tr', r) \<Rightarrow> (st'', tr @ tr', r)))"

text \<open>The batches the council was called with, in order, and the decisions sent.\<close>

fun debate_batches :: "effect list \<Rightarrow> Transaction list list" where
  "debate_batches [] = []"
| "debate_batches (Council_debate b # es) = b # debate_batches es"
| "debate_batches (e # es) = debate_batches es"

fun emitted_decisions :: "effect list \<Rightarrow> Decision list" where
  "emitted_decisions [] = []"
| "emitted_decisions (Emit_decision d i b # es) = d # emitted_decisions es"
| "emitted_decisions (e # es) = emitted_decisions es"

section \<open>Concrete data for the examples\<close>

text \<open>
  A small classifier: untrained until its first \<open>learn_one\<close>, then sure of class 0 on a
  timeout and undecided otherwise. \<open>broken_river\<close> raises on every prediction.
\<close>

definition toy_river :: "nat river" where
  "toy_river =
     \<lparr>fresh = 0,
      predict_proba_one = (\<lambda>m f.
         (if m = 0 then Inr []
          else if dict_get f ''is_timeout'' 0 = 1 then Inr [(0, 0.95), (4, 0.05)]
          else Inr [(0, 0.5), (1, 0.5)], m)),
      learn_one = (\<lambda>m f l. m + 1)\<rparr>"

definition broken_river :: "nat river" where
  "broken_river =
     \<lparr>fresh = 0,
      predict_proba_one = (\<lambda>m f. (Inl BackendError, m)),
      learn_one = (\<lambda>m f l. m + 1)\<rparr>"

definition txn_timeout :: Transaction where
  "txn_timeout = \<lparr>txn_id = ''t1'', amount = 250, currency = ''INR'', merchant_id = ''Amazon'',
     bank_name = ''HDFC'', payment_method = UPI, status = FAILED,
     error_code = Some ''E001_TIMEOUT'', latency_ms = 900\<rparr>"

definition trained_learner :: "nat OnlineLearner" where
  "trained_learner = (OnlineLearner_init toy_river 0.9)\<lparr>model := 3, samples_seen := 3, correct_predictions := 2\<rparr>"

definition toy_pyrt :: pyrt where
  "toy_pyrt =
     \<lparr>str_float = (\<lambda>x. ''0.0''), fmt_2f = (\<lambda>x. ''0.00''), fmt_pct1 = (\<lambda>x. ''0.0%''),
      float_of_str = (\<lambda>s. None), set_iter = remdups,
      fmt_field = (\<lambda>v acc conv spec. Inr v)\<rparr>"

definition toy_council :: "Transaction list \<Rightarrow> exn + CouncilDebate" where
  "toy_council = MockCouncil_debate SWITCH_GATEWAY 0.8 700"

definition txn_declined :: Transaction where
  "txn_declined = \<lparr>txn_id = ''t2'', amount = 1200, currency = ''INR'', merchant_id = ''Swiggy'',
     bank_name = ''SBI'', payment_method = CREDIT_CARD, status = FAILED,
     error_code = Some ''E003_BANK_DECLINED'', latency_ms = 1500\<rparr>"

definition txn_pending :: Transaction where
  "txn_pending = \<lparr>txn_id = ''t3'', amount = 80, currency = ''INR'', merchant_id = ''Uber'',
     bank_name = ''Axis'', payment_method = WALLET, status = PENDING,
     error_code = None, latency_ms = 120\<rparr>"

definition txn_success :: Transaction where
  "txn_success = \<lparr>txn_id = ''t4'', amount = 499, currency = ''INR'', merchant_id = ''Myntra'',
     bank_name = ''ICICI'', payment_method = DEBIT_CARD, status = SUCCESS,
     error_code = None, latency_ms = 210\<rparr>"

text \<open>
  The example system seen from outside: the number of samples the toy classifier has
  learnt and the length of the buffer. \<open>toy_next\<close> is what one failed transaction does to
  this pair, with the lengths of the batches sent to the council.
\<close>

definition toy_inv :: "nat AppState \<Rightarrow> nat \<Rightarrow> nat \<Rightarrow> bool" where
  "toy_inv st k n \<longleftrightarrow>
     model (learner st) = k \<and> samples_seen (learner st) = int k
     \<and> confidence_threshold (learner st) = 0.9 \<and> length (recent_failures st) = n"

definition toy_next :: "nat \<times> nat \<Rightarrow> Transaction \<Rightarrow> (nat \<times> nat) \<times> nat list" where
  "toy_next kn t =
     (if 20 \<le> fst kn \<and> dict_get (extract_features t) ''is_timeout'' 0 = 1
      then ((fst kn, snd kn + 1), [])
      else if 5 \<le> snd kn + 1 then ((fst kn + snd kn + 1, 0), [snd kn + 1])
      else ((fst kn, snd kn + 1), []))"

fun toy_run :: "nat \<times> nat \<Rightarrow> Transaction list \<Rightarrow> (nat \<times> nat) \<times> nat list" where
  "toy_run kn [] = (kn, [])"
| "toy_run kn (t # ts) =
     (case toy_next kn t of (kn', bs) \<Rightarrow>
        (case toy_run kn' ts of (kn'', bs') \<Rightarrow> (kn'', bs @ bs')))"

definition toy_trained_state :: "nat AppState" where
  "toy_trained_state =
     fst (transaction_loop toy_pyrt toy_river toy_council (AppState_init toy_river)
            (replicate 20 txn_timeout))"

definition toy_state_4 :: "nat AppState" where
  "toy_state_4 = (AppState_init toy_river)\<lparr>recent_failures := replicate 4 txn_timeout\<rparr>"

definition toy_debate :: CouncilDebate where
  "toy_debate =
     \<lparr>risk_argument =
        \<lparr>agent_name = ''Risk Agent'', stance = ''conservative'',
         argument = ''High failure rate detected. Recommend blocking to prevent fraud.'',
         suggested_action = BLOCK_MERCHANT\<rparr>,
      growth_argument =
        \<lparr>agent_name = ''Growth Agent'', stance = ''aggressive'',
         argument = ''Revenue at risk! We must retry these transactions immediately.'',
         suggested_action = INCREASE_RETRY\<rparr>,
      manager_synthesis =
        ''Balanced approach: switch gateway to recover revenue while monitoring for fraud.'',
      final_decision =
        \<lparr>action = SWITCH_GATEWAY,
         reasoning = ''Synthesized decision based on risk-reward analysis'',
         confidence_score = 0.8, agent_source = TEACHER\<rparr>,
      debate_duration_ms = 700\<rparr>"

definition toy_disk :: "nat disk" where
  "toy_disk = \<lparr>files = Map.empty, writable = (\<lambda>p. True)\<rparr>"

text \<open>A backend that is down: every role call raises.\<close>

definition failing_backend :: backend where
  "failing_backend = (\<lambda>n system_prompt context. Inl BackendError)"

text \<open>\<open>LLMCouncil\<close> on that backend, as the council of the router.\<close>

definition down_council :: "Transaction list \<Rightarrow> exn + CouncilDebate" where
  "down_council = LLMCouncil_debate toy_pyrt failing_backend 1200"

section \<open>Properties of the Student\<close>

lemma predict_fields:
  "samples_seen (snd (predict R self t)) = samples_seen self"
  "correct_predictions (snd (predict R self t)) = correct_predictions self"
  "confidence_threshold (snd (predict R self t)) = confidence_threshold self"
  "recent_decisions (snd (predict R self t)) = recent_decisions self"
  by (simp_all add: predict_def Let_def split: prod.splits sum.splits list.splits)

lemma is_confident_state: "snd (is_confident R self t) = snd (predict R self t)"
  by (simp add: is_confident_def split: prod.splits)

text \<open>
  Claim C3. For every transaction and every learner state, \<open>is_confident\<close> answers True
  exactly when the confidence that \<open>predict\<close> reports is at least \<open>confidence_threshold\<close>
  and \<open>samples_seen\<close> is at least 20; below 20 samples it answers False whatever the
  confidence is. The action and confidence it returns are those of \<open>predict\<close>.
\<close>

theorem is_confident_gate:
  "(fst (fst (is_confident R self t)) \<longleftrightarrow>
      (snd (fst (predict R self t)) \<ge> confidence_threshold self \<and> samples_seen self \<ge> 20))
   \<and> (samples_seen self < 20 \<longrightarrow> \<not> fst (fst (is_confident R self t)))
   \<and> snd (fst (is_confident R self t)) = fst (predict R self t)"
proof -
  obtain a c s1 where p: "predict R self t = ((a, c), s1)"
    by (metis prod.exhaust)
  have "samples_seen s1 = samples_seen self" "confidence_threshold s1 = confidence_threshold self"
    using predict_fields(1,3)[of R self t] p by simp_all
  then show ?thesis
    by (auto simp: is_confident_def p)
qed


lemmas toy_defs = predict_def toy_river_def broken_river_def OnlineLearner_init_def extract_features_def
  dict_get_def txn_timeout_def REVERSE_ACTION_MAP_def ACTION_MAP_def Let_def deque_append_def

text \<open>With 19 samples a confidence of 0.95 is refused; with 20 it passes the 0.9 gate.\<close>

theorem is_confident_gate_witness:
  "samples_seen ((OnlineLearner_init toy_river 0.9)\<lparr>model := 3, samples_seen := 19\<rparr>) < 20
   \<and> snd (fst (predict toy_river ((OnlineLearner_init toy_river 0.9)\<lparr>model := 3, samples_seen := 19\<rparr>) txn_timeout)) \<ge> 0.9
   \<and> \<not> fst (fst (is_confident toy_river ((OnlineLearner_init toy_river 0.9)\<lparr>model := 3, samples_seen := 19\<rparr>) txn_timeout))
   \<and> fst (fst (is_confident toy_river ((OnlineLearner_init toy_river 0.9)\<lparr>model := 3, samples_seen := 20\<rparr>) txn_timeout))"
  using is_confident_gate [of toy_river "(OnlineLearner_init toy_river 0.9)\<lparr>model := 3, samples_seen := 19\<rparr>" txn_timeout]
    is_confident_gate [of toy_river "(OnlineLearner_init toy_river 0.9)\<lparr>model := 3, samples_seen := 20\<rparr>" txn_timeout]
  by (simp add: toy_defs)

text \<open>
  Claim C6. \<open>predict\<close> returns for every transaction and learner: when the classifier
  gives no probabilities the answer is (\<open>NO_ACTION\<close>, 0), and when the classifier raises, the
  handler gives the same answer.
\<close>

theorem predict_untrained:
  "(fst (predict_proba_one R (model self) (extract_features t)) = Inr []
      \<longrightarrow> fst (predict R self t) = (NO_ACTION, 0))
   \<and> ((\<exists>e. fst (predict_proba_one R (model self) (extract_features t)) = Inl e)
      \<longrightarrow> fst (predict R self t) = (NO_ACTION, 0))"
  by (auto simp: predict_def Let_def split: prod.splits sum.splits list.splits)

theorem predict_untrained_witness:
  "fst (predict_proba_one toy_river (model (OnlineLearner_init toy_river 0.9)) (extract_features txn_timeout)) = Inr []
   \<and> fst (predict toy_river (OnlineLearner_init toy_river 0.9) txn_timeout) = (NO_ACTION, 0)
   \<and> fst (predict_proba_one broken_river (model (OnlineLearner_init broken_river 0.9)) (extract_features txn_timeout)) = Inl BackendError
   \<and> fst (predict broken_river (OnlineLearner_init broken_river 0.9) txn_timeout) = (NO_ACTION, 0)"
proof -
  have a: "fst (predict_proba_one toy_river (model (OnlineLearner_init toy_river 0.9)) (extract_features txn_timeout)) = Inr []"
    by (simp add: toy_river_def OnlineLearner_init_def)
  have b: "fst (predict_proba_one broken_river (model (OnlineLearner_init broken_river 0.9)) (extract_features txn_timeout)) = Inl BackendError"
    by (simp add: broken_river_def OnlineLearner_init_def)
  show ?thesis
    using a b predict_untrained [of toy_river "OnlineLearner_init toy_river 0.9" txn_timeout]
      predict_untrained [of broken_river "OnlineLearner_init broken_river 0.9" txn_timeout]
    by blast
qed

lemma learn_samples_seen: "samples_seen (learn R self t d) = samples_seen self + 1"
proof -
  obtain a c s1 where p: "predict R self t = ((a, c), s1)"
    by (metis prod.exhaust)
  have "samples_seen s1 = samples_seen self"
    using predict_fields(1)[of R self t] p by simp
  then show ?thesis
    by (simp add: learn_def p Let_def)
qed

lemma learn_correct_predictions:
  "correct_predictions (learn R self t d) =
     correct_predictions self + (if fst (fst (predict R self t)) = action d then 1 else 0)"
proof -
  obtain a c s1 where p: "predict R self t = ((a, c), s1)"
    by (metis prod.exhaust)
  have "correct_predictions s1 = correct_predictions self"
    using predict_fields(2)[of R self t] p by simp
  then show ?thesis
    by (simp add: learn_def p Let_def)
qed

lemma do_call_query:
  "\<not> is_learn c \<Longrightarrow> samples_seen (do_call R self c) = samples_seen self
     \<and> correct_predictions (do_call R self c) = correct_predictions self"
  by (cases c) (simp_all add: predict_fields is_confident_state)

lemma run_calls_query:
  "list_all (\<lambda>c. \<not> is_learn c) cs \<Longrightarrow>
     samples_seen (run_calls R self cs) = samples_seen self
     \<and> correct_predictions (run_calls R self cs) = correct_predictions self"
  unfolding run_calls_def
  by (induction cs arbitrary: self) (simp_all add: do_call_query)

text \<open>
  Claim C8. Any sequence of \<open>predict\<close>, \<open>is_confident\<close> and \<open>get_stats\<close> calls with no \<open>learn\<close>
  among them leaves \<open>samples_seen\<close> and \<open>correct_predictions\<close> as they were, and any number
  of \<open>get_stats\<close> calls leaves the whole learner as it was.
\<close>

theorem queries_keep_counters:
  "(list_all (\<lambda>c. \<not> is_learn c) cs \<longrightarrow>
      samples_seen (run_calls R self cs) = samples_seen self
      \<and> correct_predictions (run_calls R self cs) = correct_predictions self)
   \<and> run_calls R self (replicate n CallGetStats) = self"
proof -
  have "foldl (do_call R) self (replicate n CallGetStats) = self"
    by (induction n) simp_all
  then show ?thesis
    using run_calls_query [of cs R self] by (simp add: run_calls_def)
qed

text \<open>The counters stay at 3 and 2 while the confidence history grows by the three predictions.\<close>

theorem queries_keep_counters_witness:
  "list_all (\<lambda>c. \<not> is_learn c) [CallPredict txn_timeout, CallGetStats, CallIsConfident txn_timeout, CallPredict txn_timeout]
   \<and> samples_seen (run_calls toy_river trained_learner
        [CallPredict txn_timeout, CallGetStats, CallIsConfident txn_timeout, CallPredict txn_timeout]) = 3
   \<and> correct_predictions (run_calls toy_river trained_learner
        [CallPredict txn_timeout, CallGetStats, CallIsConfident txn_timeout, CallPredict txn_timeout]) = 2
   \<and> confidence_history (run_calls toy_river trained_learner
        [CallPredict txn_timeout, CallGetStats, CallIsConfident txn_timeout, CallPredict txn_timeout]) = [0.95, 0.95, 0.95]"
proof -
  have q: "list_all (\<lambda>c. \<not> is_learn c) [CallPredict txn_timeout, CallGetStats, CallIsConfident txn_timeout, CallPredict txn_timeout]"
    by simp
  have h: "confidence_history (run_calls toy_river trained_learner
        [CallPredict txn_timeout, CallGetStats, CallIsConfident txn_timeout, CallPredict txn_timeout]) = [0.95, 0.95, 0.95]"
    by (simp add: run_calls_def is_confident_def trained_learner_def toy_defs)
  show ?thesis
    using q h queries_keep_counters [of "[CallPredict txn_timeout, CallGetStats, CallIsConfident txn_timeout, CallPredict txn_timeout]" toy_river trained_learner 0]
    by (simp add: trained_learner_def OnlineLearner_init_def)
qed

lemma do_call_inv:
  "0 \<le> correct_predictions self \<and> correct_predictions self \<le> samples_seen self \<Longrightarrow>
   0 \<le> correct_predictions (do_call R self c) \<and> correct_predictions (do_call R self c) \<le> samples_seen (do_call R self c)"
  by (cases c) (simp_all add: predict_fields is_confident_state learn_samples_seen learn_correct_predictions)

lemma run_calls_inv:
  "0 \<le> correct_predictions self \<and> correct_predictions self \<le> samples_seen self \<Longrightarrow>
   0 \<le> correct_predictions (run_calls R self cs) \<and> correct_predictions (run_calls R self cs) \<le> samples_seen (run_calls R self cs)"
  unfolding run_calls_def
proof (induction cs arbitrary: self)
  case Nil
  then show ?case by simp
next
  case (Cons c cs)
  from do_call_inv [OF Cons.prems] show ?case
    by (simp add: Cons.IH)
qed

lemma accuracy_bounds:
  assumes "0 \<le> correct_predictions self" "correct_predictions self \<le> samples_seen self"
  shows "0 \<le> get_accuracy self \<and> get_accuracy self \<le> 1"
proof (cases "samples_seen self = 0")
  case True
  then show ?thesis by (simp add: get_accuracy_def)
next
  case False
  with assms have pos: "0 < samples_seen self" by linarith
  have "(of_int (correct_predictions self) :: real) \<le> of_int (samples_seen self)"
    using assms(2) by simp
  with pos assms(1) show ?thesis
    by (simp add: get_accuracy_def divide_le_eq_1)
qed

text \<open>
  Claim C10. After any sequence of calls on a fresh learner, \<open>correct_predictions\<close> lies
  between 0 and \<open>samples_seen\<close> and \<open>get_accuracy\<close> between 0 and 1; one \<open>learn\<close> adds exactly
  1 to \<open>samples_seen\<close> and at most 1 to \<open>correct_predictions\<close>.
\<close>

theorem counters_invariant:
  "0 \<le> correct_predictions (run_calls R (OnlineLearner_init R thr) cs)
   \<and> correct_predictions (run_calls R (OnlineLearner_init R thr) cs)
       \<le> samples_seen (run_calls R (OnlineLearner_init R thr) cs)
   \<and> 0 \<le> get_accuracy (run_calls R (OnlineLearner_init R thr) cs)
   \<and> get_accuracy (run_calls R (OnlineLearner_init R thr) cs) \<le> 1
   \<and> samples_seen (learn R self t d) = samples_seen self + 1
   \<and> correct_predictions self \<le> correct_predictions (learn R self t d)
   \<and> correct_predictions (learn R self t d) \<le> correct_predictions self + 1"
proof -
  have i: "0 \<le> correct_predictions (OnlineLearner_init R thr)
      \<and> correct_predictions (OnlineLearner_init R thr) \<le> samples_seen (OnlineLearner_init R thr)"
    by (simp add: OnlineLearner_init_def)
  note r = run_calls_inv [OF i, of R cs]
  from r accuracy_bounds [of "run_calls R (OnlineLearner_init R thr) cs"]
  show ?thesis
    by (simp add: learn_samples_seen learn_correct_predictions)
qed

section \<open>Properties of the router\<close>

lemma pt_success:
  assumes "status txn = SUCCESS"
  shows "recent_failures (fst (process_transaction P R C st txn)) = recent_failures st"
    and "learner (fst (process_transaction P R C st txn)) = learner st"
    and "fst (snd (process_transaction P R C st txn))
           = [Emit_transaction txn, Emit_metrics (metrics (fst (process_transaction P R C st txn)))]"
    and "snd (snd (process_transaction P R C st txn)) = None"
  using assms by (simp_all add: process_transaction_def Let_def)

lemma pt_pending:
  assumes "status txn = PENDING"
  shows "recent_failures (fst (process_transaction P R C st txn)) = recent_failures st @ [txn]"
    and "learner (fst (process_transaction P R C st txn)) = learner st"
    and "fst (snd (process_transaction P R C st txn))
           = [Emit_transaction txn, Emit_metrics (metrics (fst (process_transaction P R C st txn)))]"
    and "snd (snd (process_transaction P R C st txn)) = None"
  using assms by (simp_all add: process_transaction_def Let_def)

lemma pt_fast:
  assumes f: "status txn = FAILED"
    and ic: "is_confident R (learner st) txn = ((True, a, c), l1)"
    and c: "0 \<le> c" "c \<le> 1"
  shows "recent_failures (fst (process_transaction P R C st txn)) = recent_failures st @ [txn]"
    and "learner (fst (process_transaction P R C st txn)) = l1"
    and "\<exists>r. fst (snd (process_transaction P R C st txn))
           = [Emit_transaction txn,
              Emit_decision \<lparr>action = a, reasoning = r, confidence_score = c, agent_source = STUDENT\<rparr>
                (txn_id txn) STUDENT,
              Emit_metrics (metrics (fst (process_transaction P R C st txn)))]"
    and "snd (snd (process_transaction P R C st txn)) = None"
  using f c by (simp_all add: process_transaction_def Let_def ic Decision_new_def)

lemma pt_buffered:
  assumes f: "status txn = FAILED"
    and ic: "is_confident R (learner st) txn = ((False, a, c), l1)"
    and n: "length (recent_failures st) + 1 < FAILURE_THRESHOLD"
  shows "recent_failures (fst (process_transaction P R C st txn)) = recent_failures st @ [txn]"
    and "learner (fst (process_transaction P R C st txn)) = l1"
    and "fst (snd (process_transaction P R C st txn))
           = [Emit_transaction txn, Emit_metrics (metrics (fst (process_transaction P R C st txn)))]"
    and "snd (snd (process_transaction P R C st txn)) = None"
  using f n by (simp_all add: process_transaction_def Let_def ic)

lemma pt_slow:
  assumes f: "status txn = FAILED"
    and ic: "is_confident R (learner st) txn = ((False, a, c), l1)"
    and n: "FAILURE_THRESHOLD \<le> length (recent_failures st) + 1"
    and d: "C (recent_failures st @ [txn]) = Inr d"
  shows "recent_failures (fst (process_transaction P R C st txn)) = []"
    and "learner (fst (process_transaction P R C st txn))
           = foldl (\<lambda>l t. learn R l t (final_decision d)) l1 (recent_failures st @ [txn])"
    and "fst (snd (process_transaction P R C st txn))
           = [Emit_transaction txn, Council_debate (recent_failures st @ [txn]), Emit_council_debate d,
              Emit_decision (final_decision d) (txn_id txn) (agent_source (final_decision d)),
              Emit_metrics (metrics (fst (process_transaction P R C st txn)))]"
    and "snd (snd (process_transaction P R C st txn)) = None"
  using f n by (simp_all add: process_transaction_def Let_def ic d)

lemma pt_slow_raise:
  assumes f: "status txn = FAILED"
    and ic: "is_confident R (learner st) txn = ((False, a, c), l1)"
    and n: "FAILURE_THRESHOLD \<le> length (recent_failures st) + 1"
    and d: "C (recent_failures st @ [txn]) = Inl e"
  shows "recent_failures (fst (process_transaction P R C st txn)) = recent_failures st @ [txn]"
    and "learner (fst (process_transaction P R C st txn)) = l1"
    and "fst (snd (process_transaction P R C st txn))
           = [Emit_transaction txn, Council_debate (recent_failures st @ [txn])]"
    and "snd (snd (process_transaction P R C st txn)) = Some e"
  using f n by (simp_all add: process_transaction_def Let_def ic d)

lemma debate_batches_pt:
  "debate_batches (fst (snd (process_transaction P R C st txn))) =
     (if status txn = FAILED \<and> \<not> fst (fst (is_confident R (learner st) txn))
         \<and> FAILURE_THRESHOLD \<le> length (recent_failures st) + 1
      then [recent_failures st @ [txn]] else [])"
proof -
  obtain b a c l1 where ic: "is_confident R (learner st) txn = ((b, a, c), l1)"
    by (metis prod.exhaust)
  show ?thesis
    by (cases "status txn")
       (auto simp: process_transaction_def Let_def ic Decision_new_def split: sum.splits)
qed


lemma toy_feat [simp]:
  "dict_get (extract_features txn_timeout) ''is_timeout'' 0 = 1"
  "dict_get (extract_features txn_declined) ''is_timeout'' 0 = 0"
  by (simp_all add: extract_features_def dict_get_def txn_timeout_def txn_declined_def)

lemma toy_status [simp]:
  "status txn_timeout = FAILED" "status txn_declined = FAILED"
  "status txn_pending = PENDING" "status txn_success = SUCCESS"
  by (simp_all add: txn_timeout_def txn_declined_def txn_pending_def txn_success_def)

lemma toy_council_Inr: "\<exists>d. toy_council b = Inr d"
  by (simp add: toy_council_def MockCouncil_debate_def Decision_new_def)

lemma learn_threshold: "confidence_threshold (learn R self t d) = confidence_threshold self"
proof -
  obtain a c s1 where p: "predict R self t = ((a, c), s1)"
    by (metis prod.exhaust)
  have "confidence_threshold s1 = confidence_threshold self"
    using predict_fields(3)[of R self t] p by simp
  then show ?thesis
    by (simp add: learn_def p Let_def)
qed

lemma toy_predict_model: "model (snd (predict toy_river self t)) = model self"
  by (simp add: predict_def toy_river_def Let_def split: list.splits)

lemma toy_learn_model: "model (learn toy_river self t d) = Suc (model self)"
proof -
  obtain a c s1 where p: "predict toy_river self t = ((a, c), s1)"
    by (metis prod.exhaust)
  have "model s1 = model self"
    using toy_predict_model [of self t] p by simp
  then show ?thesis
    by (simp add: learn_def p Let_def) (simp add: toy_river_def)
qed

lemma toy_foldl_learn:
  "model (foldl (\<lambda>l t. learn toy_river l t d) self ts) = model self + length ts
   \<and> samples_seen (foldl (\<lambda>l t. learn toy_river l t d) self ts) = samples_seen self + int (length ts)
   \<and> confidence_threshold (foldl (\<lambda>l t. learn toy_river l t d) self ts) = confidence_threshold self"
  by (induction ts arbitrary: self) (simp_all add: toy_learn_model learn_samples_seen learn_threshold)

lemma toy_predict_conf:
  "snd (fst (predict toy_river self t)) =
     (if model self = 0 then 0
      else if dict_get (extract_features t) ''is_timeout'' 0 = 1 then 0.95 else 0.5)"
  by (simp add: predict_def toy_river_def Let_def)

lemma is_confident_fst:
  "fst (fst (is_confident R self t)) \<longleftrightarrow>
     (snd (fst (predict R self t)) \<ge> confidence_threshold self \<and> samples_seen self \<ge> 20)"
  "snd (fst (is_confident R self t)) = fst (predict R self t)"
proof -
  obtain a c s1 where p: "predict R self t = ((a, c), s1)"
    by (metis prod.exhaust)
  have "samples_seen s1 = samples_seen self" "confidence_threshold s1 = confidence_threshold self"
    using predict_fields(1,3)[of R self t] p by simp_all
  then show "fst (fst (is_confident R self t)) \<longleftrightarrow>
     (snd (fst (predict R self t)) \<ge> confidence_threshold self \<and> samples_seen self \<ge> 20)"
    "snd (fst (is_confident R self t)) = fst (predict R self t)"
    by (auto simp: is_confident_def p)
qed

lemma toy_confident:
  assumes "toy_inv st k n"
  shows "fst (fst (is_confident toy_river (learner st) t)) \<longleftrightarrow>
           (20 \<le> k \<and> dict_get (extract_features t) ''is_timeout'' 0 = 1)"
  using assms by (auto simp: is_confident_fst(1) toy_predict_conf toy_inv_def)

lemma toy_step:
  assumes inv: "toy_inv st k n" and f: "status t = FAILED"
  shows "toy_inv (fst (process_transaction toy_pyrt toy_river toy_council st t))
           (fst (fst (toy_next (k, n) t))) (snd (fst (toy_next (k, n) t)))
         \<and> map length (debate_batches (fst (snd (process_transaction toy_pyrt toy_river toy_council st t))))
             = snd (toy_next (k, n) t)
         \<and> snd (snd (process_transaction toy_pyrt toy_river toy_council st t)) = None"
proof -
  obtain b a c l1 where ic: "is_confident toy_river (learner st) t = ((b, a, c), l1)"
    by (metis prod.exhaust)
  have b: "b \<longleftrightarrow> (20 \<le> k \<and> dict_get (extract_features t) ''is_timeout'' 0 = 1)"
    using toy_confident [OF inv, of t] ic by simp
  have l1: "l1 = snd (predict toy_river (learner st) t)"
    using is_confident_state [of toy_river "learner st" t] ic by simp
  have "(a, c) = fst (predict toy_river (learner st) t)"
    using is_confident_fst(2) [of toy_river "learner st" t] by (simp add: ic)
  then have c: "c = snd (fst (predict toy_river (learner st) t))"
    by (metis snd_conv)
  have l1f: "model l1 = k" "samples_seen l1 = int k" "confidence_threshold l1 = 0.9"
    using inv by (simp_all add: l1 toy_predict_model predict_fields toy_inv_def)
  show ?thesis
  proof (cases b)
    case True
    with ic have ic': "is_confident toy_river (learner st) t = ((True, a, c), l1)" by simp
    have c01: "0 \<le> c" "c \<le> 1" by (simp_all add: c toy_predict_conf)
    note r = pt_fast [where C = toy_council and P = toy_pyrt, OF f ic' c01]
    have "debate_batches (fst (snd (process_transaction toy_pyrt toy_river toy_council st t))) = []"
      using True ic by (simp add: debate_batches_pt f)
    with True b r(1,2,4) l1f inv show ?thesis
      by (simp add: toy_next_def toy_inv_def)
  next
    case False
    with ic have ic': "is_confident toy_river (learner st) t = ((False, a, c), l1)" by simp
    show ?thesis
    proof (cases "5 \<le> n + 1")
      case True
      then have n: "FAILURE_THRESHOLD \<le> length (recent_failures st) + 1"
        using inv by (simp add: FAILURE_THRESHOLD_def toy_inv_def)
      obtain d where d: "toy_council (recent_failures st @ [t]) = Inr d"
        using toy_council_Inr by blast
      note r = pt_slow [where C = toy_council and P = toy_pyrt, OF f ic' n d]
      have db: "debate_batches (fst (snd (process_transaction toy_pyrt toy_river toy_council st t)))
              = [recent_failures st @ [t]]"
        using n False ic by (simp add: debate_batches_pt f)
      have lf: "model (learner (fst (process_transaction toy_pyrt toy_river toy_council st t)))
                  = model l1 + length (recent_failures st @ [t])"
        "samples_seen (learner (fst (process_transaction toy_pyrt toy_river toy_council st t)))
                  = samples_seen l1 + int (length (recent_failures st @ [t]))"
        "confidence_threshold (learner (fst (process_transaction toy_pyrt toy_river toy_council st t)))
                  = confidence_threshold l1"
        by (simp_all only: r(2) toy_foldl_learn)
      with True False b r(1,4) l1f inv db show ?thesis
        by (auto simp: toy_next_def toy_inv_def)
    next
      case n5: False
      then have n: "length (recent_failures st) + 1 < FAILURE_THRESHOLD"
        using inv by (simp add: FAILURE_THRESHOLD_def toy_inv_def)
      note r = pt_buffered [where C = toy_council and P = toy_pyrt, OF f ic' n]
      have "debate_batches (fst (snd (process_transaction toy_pyrt toy_river toy_council st t))) = []"
        using n False ic by (simp add: debate_batches_pt f)
      with n5 False b r(1,2,4) l1f inv show ?thesis
        by (auto simp: toy_next_def toy_inv_def)
    qed
  qed
qed

lemma debate_batches_append: "debate_batches (xs @ ys) = debate_batches xs @ debate_batches ys"
  by (induction xs rule: debate_batches.induct) simp_all

lemma toy_loop:
  assumes "toy_inv st k n" and "list_all (\<lambda>t. status t = FAILED) ts"
  shows "toy_inv (fst (transaction_loop toy_pyrt toy_river toy_council st ts))
           (fst (fst (toy_run (k, n) ts))) (snd (fst (toy_run (k, n) ts)))
         \<and> map length (debate_batches (fst (snd (transaction_loop toy_pyrt toy_river toy_council st ts))))
             = snd (toy_run (k, n) ts)
         \<and> snd (snd (transaction_loop toy_pyrt toy_river toy_council st ts)) = None"
  using assms
proof (induction ts arbitrary: st k n)
  case Nil
  then show ?case by simp
next
  case (Cons t ts)
  from Cons.prems have f: "status t = FAILED" and rest: "list_all (\<lambda>t. status t = FAILED) ts"
    by simp_all
  obtain st' tr r where pt: "process_transaction toy_pyrt toy_river toy_council st t = (st', tr, r)"
    by (metis prod.exhaust)
  obtain k' n' bs where nx: "toy_next (k, n) t = ((k', n'), bs)"
    by (metis prod.exhaust)
  from toy_step [OF Cons.prems(1) f] pt nx
  have s: "toy_inv st' k' n'" "map length (debate_batches tr) = bs" "r = None"
    by simp_all
  obtain st'' tr' r' where lp: "transaction_loop toy_pyrt toy_river toy_council st' ts = (st'', tr', r')"
    by (metis prod.exhaust)
  obtain kn'' bs' where rn: "toy_run (k', n') ts = (kn'', bs')"
    by (metis prod.exhaust)
  from Cons.IH [OF s(1) rest] lp rn
  have i: "toy_inv st'' (fst kn'') (snd kn'')" "map length (debate_batches tr') = bs'" "r' = None"
    by simp_all
  from s i show ?case
    by (simp add: pt nx lp rn debate_batches_append)
qed

lemma toy_init: "toy_inv (AppState_init toy_river) 0 0"
  by (simp add: toy_inv_def AppState_init_def OnlineLearner_init_def toy_river_def
      STUDENT_CONFIDENCE_THRESHOLD_def)

lemma toy_run_25_1:
  "toy_run (0, 0) (replicate 25 txn_timeout @ [txn_declined]) = ((26, 0), [5, 5, 5, 5, 6])"
  by (simp add: eval_nat_numeral toy_next_def)

lemma toy_run_20: "toy_run (0, 0) (replicate 20 txn_timeout) = ((20, 0), [5, 5, 5, 5])"
  by (simp add: eval_nat_numeral toy_next_def)

text \<open>
  Claim C1 as stated fails. From the initial state, twenty failed transactions train the
  toy classifier in four escalations of five; the next five failures are decided by the
  Student and stay in the buffer; the failure after them, on which the Student is not
  confident, escalates a batch of six although the threshold is five.
\<close>

theorem escalation_exceeds_threshold:
  "map length (debate_batches (fst (snd (transaction_loop toy_pyrt toy_river toy_council
      (AppState_init toy_river) (replicate 25 txn_timeout @ [txn_declined])))))
     = [5, 5, 5, 5, 6]
   \<and> FAILURE_THRESHOLD = 5"
proof -
  have "list_all (\<lambda>t. status t = FAILED) (replicate 25 txn_timeout @ [txn_declined])"
    by (simp add: list_all_iff)
  from toy_loop [OF toy_init this] show ?thesis
    by (simp only: toy_run_25_1 FAILURE_THRESHOLD_def) simp
qed

lemma toy_trained: "toy_inv toy_trained_state 20 0"
proof -
  have "list_all (\<lambda>t. status t = FAILED) (replicate 20 txn_timeout)"
    by (simp add: list_all_iff)
  from toy_loop [OF toy_init this] show ?thesis
    by (simp only: toy_run_20 toy_trained_state_def) simp
qed

lemma foldl_learn_samples:
  "samples_seen (foldl (\<lambda>l t. learn R l t d) self ts) = samples_seen self + int (length ts)"
  by (induction ts arbitrary: self) (simp_all add: learn_samples_seen)

lemma pt_escalation:
  assumes b: "b \<in> set (debate_batches (fst (snd (process_transaction P R C st txn))))"
  shows "status txn = FAILED" "\<not> fst (fst (is_confident R (learner st) txn))"
    "FAILURE_THRESHOLD \<le> length (recent_failures st) + 1" "b = recent_failures st @ [txn]"
  using b by (simp_all add: debate_batches_pt split: if_splits)

text \<open>
  Claim C1, amended. When \<open>process_transaction\<close> calls the council, the batch is the buffer
  with the current transaction appended and its length is at least \<open>FAILURE_THRESHOLD\<close>;
  when the call then ends without an exception, the buffer is empty.
\<close>

theorem escalation_batch:
  "b \<in> set (debate_batches (fst (snd (process_transaction P R C st txn)))) \<longrightarrow>
     b = recent_failures st @ [txn]
     \<and> FAILURE_THRESHOLD \<le> length b
     \<and> (snd (snd (process_transaction P R C st txn)) = None \<longrightarrow>
          recent_failures (fst (process_transaction P R C st txn)) = [])"
proof
  assume b: "b \<in> set (debate_batches (fst (snd (process_transaction P R C st txn))))"
  note e = pt_escalation [OF b]
  obtain a c l1 where ic: "is_confident R (learner st) txn = ((False, a, c), l1)"
    using e(2) by (metis (full_types) fst_conv prod.exhaust)
  have "snd (snd (process_transaction P R C st txn)) = None \<longrightarrow>
          recent_failures (fst (process_transaction P R C st txn)) = []"
  proof (cases "C (recent_failures st @ [txn])")
    case (Inl x)
    from pt_slow_raise(4) [where C = C and P = P, OF e(1) ic e(3) Inl] show ?thesis by simp
  next
    case (Inr d)
    from pt_slow(1) [where C = C and P = P, OF e(1) ic e(3) Inr] show ?thesis by simp
  qed
  with e show "b = recent_failures st @ [txn] \<and> FAILURE_THRESHOLD \<le> length b
     \<and> (snd (snd (process_transaction P R C st txn)) = None \<longrightarrow>
          recent_failures (fst (process_transaction P R C st txn)) = [])"
    by simp
qed

text \<open>
  The escalation when the council returns: called on a batch \<open>b\<close> and returning the
  debate \<open>d\<close>, the council is called once, the one decision sent is the final decision of \<open>d\<close>, the learner is the
  result of one \<open>learn\<close> per transaction of \<open>b\<close>, in order, each with that decision,
  \<open>samples_seen\<close> has grown by the length of \<open>b\<close>, and the buffer is empty.
\<close>

theorem escalation_trains_batch:
  assumes b: "b \<in> set (debate_batches (fst (snd (process_transaction P R C st txn))))"
    and d: "C b = Inr d"
  shows "debate_batches (fst (snd (process_transaction P R C st txn))) = [b]
     \<and> emitted_decisions (fst (snd (process_transaction P R C st txn))) = [final_decision d]
     \<and> learner (fst (process_transaction P R C st txn))
         = foldl (\<lambda>l t. learn R l t (final_decision d)) (snd (is_confident R (learner st) txn)) b
     \<and> samples_seen (learner (fst (process_transaction P R C st txn)))
         = samples_seen (learner st) + int (length b)
     \<and> recent_failures (fst (process_transaction P R C st txn)) = []
     \<and> snd (snd (process_transaction P R C st txn)) = None"
proof -
  note e = pt_escalation [OF b]
  obtain a c l1 where ic: "is_confident R (learner st) txn = ((False, a, c), l1)"
    using e(2) by (metis (full_types) fst_conv prod.exhaust)
  from d e(4) have d': "C (recent_failures st @ [txn]) = Inr d" by simp
  note r = pt_slow [where C = C and P = P, OF e(1) ic e(3) d']
  have l1: "samples_seen l1 = samples_seen (learner st)"
    using is_confident_state [of R "learner st" txn] predict_fields(1) [of R "learner st" txn]
    by (simp add: ic)
  have "samples_seen (learner (fst (process_transaction P R C st txn)))
         = samples_seen (learner st) + int (length b)"
    by (simp only: r(2) foldl_learn_samples l1 e(4))
  moreover have "debate_batches (fst (snd (process_transaction P R C st txn))) = [b]"
    using e by (simp add: debate_batches_pt)
  moreover have "emitted_decisions (fst (snd (process_transaction P R C st txn))) = [final_decision d]"
    by (simp add: r(3))
  ultimately show ?thesis
    using r(1,2,4) e(4) by (simp add: ic)
qed

text \<open>
  Claim C2, amended. For a failed transaction on which the Student is confident, with a
  confidence in [0, 1], exactly one decision is sent: the predicted action with that
  confidence and source \<open>STUDENT\<close>. The transaction has been appended to the buffer, which
  is neither passed to the council nor cleared.
\<close>

theorem fast_path_appends:
  assumes "status txn = FAILED"
    and "fst (fst (is_confident R (learner st) txn))"
    and "0 \<le> snd (snd (fst (is_confident R (learner st) txn)))"
    and "snd (snd (fst (is_confident R (learner st) txn))) \<le> 1"
  shows "map action (emitted_decisions (fst (snd (process_transaction P R C st txn))))
           = [fst (snd (fst (is_confident R (learner st) txn)))]
     \<and> map confidence_score (emitted_decisions (fst (snd (process_transaction P R C st txn))))
           = [snd (snd (fst (is_confident R (learner st) txn)))]
     \<and> map agent_source (emitted_decisions (fst (snd (process_transaction P R C st txn))))
           = [STUDENT]
     \<and> recent_failures (fst (process_transaction P R C st txn)) = recent_failures st @ [txn]
     \<and> debate_batches (fst (snd (process_transaction P R C st txn))) = []
     \<and> snd (snd (process_transaction P R C st txn)) = None"
proof -
  obtain a c l1 where ic: "is_confident R (learner st) txn = ((True, a, c), l1)"
    using assms(2) by (metis (full_types) fst_conv prod.exhaust)
  from assms(3,4) ic have c: "0 \<le> c" "c \<le> 1" by simp_all
  note r = pt_fast [where C = C and P = P, OF assms(1) ic c]
  from r(3) obtain rs where tr: "fst (snd (process_transaction P R C st txn))
           = [Emit_transaction txn,
              Emit_decision \<lparr>action = a, reasoning = rs, confidence_score = c, agent_source = STUDENT\<rparr>
                (txn_id txn) STUDENT,
              Emit_metrics (metrics (fst (process_transaction P R C st txn)))]"
    by blast
  show ?thesis
    using r(1,4) by (simp add: tr ic)
qed

lemma toy_council_eq: "toy_council b = Inr toy_debate"
  by (simp add: toy_council_def MockCouncil_debate_def Decision_new_def toy_debate_def)

lemma toy_state_4_inv: "toy_inv toy_state_4 0 4"
  by (simp add: toy_state_4_def toy_inv_def AppState_init_def OnlineLearner_init_def toy_river_def
      STUDENT_CONFIDENCE_THRESHOLD_def)

lemma toy_state_4_batch:
  "debate_batches (fst (snd (process_transaction toy_pyrt toy_river toy_council toy_state_4 txn_timeout)))
     = [replicate 5 txn_timeout]"
proof -
  have "\<not> fst (fst (is_confident toy_river (learner toy_state_4) txn_timeout))"
    using toy_confident [OF toy_state_4_inv, of txn_timeout] by simp
  moreover have "recent_failures toy_state_4 @ [txn_timeout] = replicate 5 txn_timeout"
    by (simp add: toy_state_4_def eval_nat_numeral)
  moreover have "length (recent_failures toy_state_4) = 4"
    by (simp add: toy_state_4_def)
  ultimately show ?thesis
    by (simp add: debate_batches_pt FAILURE_THRESHOLD_def)
qed

text \<open>Four buffered failures and a fifth one: the council is called on five, the buffer is emptied.\<close>

theorem escalation_batch_witness:
  "replicate 5 txn_timeout
     \<in> set (debate_batches (fst (snd (process_transaction toy_pyrt toy_river toy_council toy_state_4 txn_timeout))))
   \<and> replicate 5 txn_timeout = recent_failures toy_state_4 @ [txn_timeout]
   \<and> FAILURE_THRESHOLD \<le> length (replicate 5 txn_timeout)
   \<and> snd (snd (process_transaction toy_pyrt toy_river toy_council toy_state_4 txn_timeout)) = None
   \<and> recent_failures (fst (process_transaction toy_pyrt toy_river toy_council toy_state_4 txn_timeout)) = []"
proof -
  have m: "replicate 5 txn_timeout
     \<in> set (debate_batches (fst (snd (process_transaction toy_pyrt toy_river toy_council toy_state_4 txn_timeout))))"
    by (simp add: toy_state_4_batch)
  have n: "snd (snd (process_transaction toy_pyrt toy_river toy_council toy_state_4 txn_timeout)) = None"
    using toy_step [OF toy_state_4_inv, of txn_timeout] by simp
  show ?thesis
    using m n escalation_batch [of "replicate 5 txn_timeout" toy_pyrt toy_river toy_council toy_state_4 txn_timeout]
    by blast
qed

theorem escalation_trains_batch_witness:
  "replicate 5 txn_timeout
     \<in> set (debate_batches (fst (snd (process_transaction toy_pyrt toy_river toy_council toy_state_4 txn_timeout))))
   \<and> toy_council (replicate 5 txn_timeout) = Inr toy_debate
   \<and> emitted_decisions (fst (snd (process_transaction toy_pyrt toy_river toy_council toy_state_4 txn_timeout)))
       = [final_decision toy_debate]
   \<and> samples_seen (learner (fst (process_transaction toy_pyrt toy_river toy_council toy_state_4 txn_timeout))) = 5
   \<and> recent_failures (fst (process_transaction toy_pyrt toy_river toy_council toy_state_4 txn_timeout)) = []"
proof -
  have m: "replicate 5 txn_timeout
     \<in> set (debate_batches (fst (snd (process_transaction toy_pyrt toy_river toy_council toy_state_4 txn_timeout))))"
    by (simp add: toy_state_4_batch)
  have s: "samples_seen (learner toy_state_4) = 0"
    by (simp add: toy_state_4_def AppState_init_def OnlineLearner_init_def)
  note r = escalation_trains_batch [where C = toy_council, OF m toy_council_eq]
  from r have "samples_seen (learner (fst (process_transaction toy_pyrt toy_river toy_council
      toy_state_4 txn_timeout)))
        = samples_seen (learner toy_state_4) + int (length (replicate 5 txn_timeout))"
    by blast
  with s have "samples_seen (learner (fst (process_transaction toy_pyrt toy_river toy_council
      toy_state_4 txn_timeout))) = 5"
    by simp
  with m r toy_council_eq [of "replicate 5 txn_timeout"] show ?thesis
    by blast
qed

lemma toy_trained_confident:
  "fst (fst (is_confident toy_river (learner toy_trained_state) txn_timeout))"
  "snd (snd (fst (is_confident toy_river (learner toy_trained_state) txn_timeout))) = 0.95"
proof -
  show "fst (fst (is_confident toy_river (learner toy_trained_state) txn_timeout))"
    using toy_confident [OF toy_trained, of txn_timeout] by simp
  have "model (learner toy_trained_state) = 20"
    using toy_trained by (simp add: toy_inv_def)
  then show "snd (snd (fst (is_confident toy_river (learner toy_trained_state) txn_timeout))) = 0.95"
    by (simp add: is_confident_fst(2) toy_predict_conf)
qed

lemma toy_trained_buffer: "recent_failures toy_trained_state = []"
  using toy_trained by (simp add: toy_inv_def)

theorem fast_path_appends_witness:
  "status txn_timeout = FAILED
   \<and> fst (fst (is_confident toy_river (learner toy_trained_state) txn_timeout))
   \<and> map confidence_score (emitted_decisions
        (fst (snd (process_transaction toy_pyrt toy_river toy_council toy_trained_state txn_timeout)))) = [0.95]
   \<and> map agent_source (emitted_decisions
        (fst (snd (process_transaction toy_pyrt toy_river toy_council toy_trained_state txn_timeout)))) = [STUDENT]
   \<and> recent_failures (fst (process_transaction toy_pyrt toy_river toy_council toy_trained_state txn_timeout))
       = [txn_timeout]
   \<and> debate_batches (fst (snd (process_transaction toy_pyrt toy_river toy_council toy_trained_state txn_timeout))) = []"
proof -
  have c: "0 \<le> snd (snd (fst (is_confident toy_river (learner toy_trained_state) txn_timeout)))"
    "snd (snd (fst (is_confident toy_river (learner toy_trained_state) txn_timeout))) \<le> 1"
    by (simp_all add: toy_trained_confident(2))
  show ?thesis
    using fast_path_appends [where P = toy_pyrt and C = toy_council,
        OF toy_status(1) toy_trained_confident(1) c]
    by (simp add: toy_trained_confident toy_trained_buffer)
qed

text \<open>
  Claim C2 as stated fails: in the state reached after twenty failed transactions the
  buffer is empty, the Student is confident on a timeout, and processing it leaves the
  transaction in the buffer.
\<close>

theorem fast_path_changes_buffer:
  "status txn_timeout = FAILED
   \<and> fst (fst (is_confident toy_river (learner toy_trained_state) txn_timeout))
   \<and> recent_failures toy_trained_state = []
   \<and> recent_failures (fst (process_transaction toy_pyrt toy_river toy_council toy_trained_state txn_timeout))
       = [txn_timeout]"
proof -
  obtain a c l1 where ic: "is_confident toy_river (learner toy_trained_state) txn_timeout = ((True, a, c), l1)"
    using toy_trained_confident(1) by (metis (full_types) fst_conv prod.exhaust)
  have c: "0 \<le> c" "c \<le> 1"
    using toy_trained_confident(2) by (simp_all add: ic)
  from pt_fast(1) [where P = toy_pyrt and C = toy_council, OF toy_status(1) ic c]
  show ?thesis
    by (simp add: toy_trained_confident(1) toy_trained_buffer)
qed

text \<open>A successful transaction leaves the buffer alone and yields no decision.\<close>

lemma success_never_buffered:
  assumes "status txn = SUCCESS"
  shows "recent_failures (fst (process_transaction P R C st txn)) = recent_failures st
     \<and> emitted_decisions (fst (snd (process_transaction P R C st txn))) = []
     \<and> debate_batches (fst (snd (process_transaction P R C st txn))) = []"
  using pt_success [OF assms, of P R C st] by simp

text \<open>
  Claim C7 fails on a pending transaction: the first test of \<open>process_transaction\<close> is
  \<open>status == SUCCESS\<close>, so a pending transaction is counted as failed and appended to
  \<open>recent_failures\<close>; only the later test \<open>status != FAILED\<close> keeps it from a decision.
\<close>

theorem pending_enters_buffer:
  "status txn_pending = PENDING
   \<and> recent_failures (AppState_init toy_river) = []
   \<and> recent_failures (fst (process_transaction toy_pyrt toy_river toy_council (AppState_init toy_river) txn_pending))
       = [txn_pending]
   \<and> failed_transactions (metrics (fst (process_transaction toy_pyrt toy_river toy_council
         (AppState_init toy_river) txn_pending))) = 1
   \<and> emitted_decisions (fst (snd (process_transaction toy_pyrt toy_river toy_council
         (AppState_init toy_river) txn_pending))) = []"
proof -
  have "failed_transactions (metrics (fst (process_transaction toy_pyrt toy_river toy_council
         (AppState_init toy_river) txn_pending))) = 1"
    by (simp add: process_transaction_def Let_def AppState_init_def SystemMetrics_init_def)
  then show ?thesis
    using pt_pending [OF toy_status(3), of toy_pyrt toy_river toy_council "AppState_init toy_river"]
    by (simp add: AppState_init_def)
qed

section \<open>Properties of saving and loading\<close>

lemma predict_model_only:
  assumes "model a = model b"
  shows "fst (predict R a t) = fst (predict R b t)"
    and "model (snd (predict R a t)) = model (snd (predict R b t))"
  using assms
  by (simp_all add: predict_def Let_def split: prod.splits sum.splits list.splits)

lemma predict_all_model_only:
  "model a = model b \<Longrightarrow> predict_all R a ts = predict_all R b ts"
proof (induction ts arbitrary: a b)
  case Nil
  then show ?case by simp
next
  case (Cons t ts)
  obtain oa a' where pa: "predict R a t = (oa, a')" by (metis prod.exhaust)
  obtain ob b' where pb: "predict R b t = (ob, b')" by (metis prod.exhaust)
  from predict_model_only [OF Cons.prems, of R t] pa pb
  have "oa = ob" "model a' = model b'" by simp_all
  with Cons.IH [of a' b'] show ?case
    by (simp add: pa pb)
qed

lemma deque_of_short: "length xs \<le> n \<Longrightarrow> deque_of n xs = xs"
  by (simp add: deque_of_def)

lemma deque_append_length: "length (deque_append n d x) \<le> max n (length d)"
  by (simp add: deque_append_def Let_def)

lemma predict_history_bounded:
  "length (confidence_history self) \<le> 100 \<Longrightarrow>
     length (confidence_history (snd (predict R self t))) \<le> 100"
  by (auto simp: predict_def Let_def deque_append_def split: prod.splits sum.splits list.splits)

lemma learn_history_bounded:
  "length (confidence_history self) \<le> 100 \<Longrightarrow>
     length (confidence_history (learn R self t d)) \<le> 100"
proof -
  assume b: "length (confidence_history self) \<le> 100"
  obtain a c s1 where p: "predict R self t = ((a, c), s1)"
    by (metis prod.exhaust)
  from predict_history_bounded [OF b, of R t] p have "length (confidence_history s1) \<le> 100"
    by simp
  then show ?thesis
    by (simp add: learn_def p Let_def)
qed

text \<open>The history of a learner built by calls from a fresh one never exceeds its bound.\<close>

lemma run_calls_history_bounded:
  "length (confidence_history self) \<le> 100 \<Longrightarrow>
     length (confidence_history (run_calls R self cs)) \<le> 100"
  unfolding run_calls_def
proof (induction cs arbitrary: self)
  case Nil
  then show ?case by simp
next
  case (Cons c cs)
  have "length (confidence_history (do_call R self c)) \<le> 100"
    using Cons.prems
    by (cases c) (simp_all add: predict_history_bounded learn_history_bounded is_confident_state)
  then show ?case
    by (simp add: Cons.IH)
qed

text \<open>
  Claim C9. After a \<open>save\<close> that returned, \<open>load\<close> of the same path on any learner answers
  True and restores \<open>samples_seen\<close>, \<open>correct_predictions\<close>, the confidence history (a
  deque of at most 100 entries) and the pipeline, and \<open>predict\<close> then gives the same answers
  as the saved learner on every sequence of test transactions.
\<close>

theorem save_load_roundtrip:
  assumes sv: "save s p dk = Inr dk'"
    and len: "length (confidence_history s) \<le> 100"
  shows "fst (load t p dk')
     \<and> samples_seen (snd (load t p dk')) = samples_seen s
     \<and> correct_predictions (snd (load t p dk')) = correct_predictions s
     \<and> confidence_history (snd (load t p dk')) = confidence_history s
     \<and> model (snd (load t p dk')) = model s
     \<and> predict_all R (snd (load t p dk')) ts = predict_all R s ts"
proof -
  from sv have f: "files dk' p = Some (Pickled (model s) (samples_seen s) (correct_predictions s)
      (confidence_history s))"
    by (auto simp: save_def split: if_splits)
  have l: "load t p dk' = (True, t\<lparr>model := model s, samples_seen := samples_seen s,
      correct_predictions := correct_predictions s,
      confidence_history := deque_of 100 (confidence_history s)\<rparr>)"
    by (simp add: load_def f)
  have m: "model (snd (load t p dk')) = model s"
    by (simp add: l)
  from predict_all_model_only [OF m, of R ts] show ?thesis
    by (simp add: l deque_of_short [OF len])
qed

text \<open>A learner with three samples, saved and loaded into a fresh learner with another threshold.\<close>

theorem save_load_roundtrip_witness:
  "save trained_learner ''student.pkl'' toy_disk
     = Inr (toy_disk\<lparr>files := Map.empty(''student.pkl'' \<mapsto> Pickled 3 3 2 [])\<rparr>)
   \<and> length (confidence_history trained_learner) \<le> 100
   \<and> fst (load (OnlineLearner_init toy_river 0.5) ''student.pkl''
        (toy_disk\<lparr>files := Map.empty(''student.pkl'' \<mapsto> Pickled 3 3 2 [])\<rparr>))
   \<and> samples_seen (snd (load (OnlineLearner_init toy_river 0.5) ''student.pkl''
        (toy_disk\<lparr>files := Map.empty(''student.pkl'' \<mapsto> Pickled 3 3 2 [])\<rparr>))) = 3
   \<and> predict_all toy_river (snd (load (OnlineLearner_init toy_river 0.5) ''student.pkl''
        (toy_disk\<lparr>files := Map.empty(''student.pkl'' \<mapsto> Pickled 3 3 2 [])\<rparr>)))
        [txn_timeout, txn_declined]
      = predict_all toy_river trained_learner [txn_timeout, txn_declined]
   \<and> predict_all toy_river trained_learner [txn_timeout, txn_declined]
      = [(SWITCH_GATEWAY, 0.95), (SWITCH_GATEWAY, 0.5)]"
proof -
  have sv: "save trained_learner ''student.pkl'' toy_disk
     = Inr (toy_disk\<lparr>files := Map.empty(''student.pkl'' \<mapsto> Pickled 3 3 2 [])\<rparr>)"
    by (simp add: save_def toy_disk_def trained_learner_def OnlineLearner_init_def)
  have len: "length (confidence_history trained_learner) \<le> 100"
    by (simp add: trained_learner_def OnlineLearner_init_def)
  have pa: "predict_all toy_river trained_learner [txn_timeout, txn_declined]
      = [(SWITCH_GATEWAY, 0.95), (SWITCH_GATEWAY, 0.5)]"
    by (simp add: predict_def Let_def toy_river_def trained_learner_def OnlineLearner_init_def
        REVERSE_ACTION_MAP_def ACTION_MAP_def dict_get_def [of "[(0::int, SWITCH_GATEWAY), (1, INCREASE_RETRY), (2, BLOCK_MERCHANT), (3, REDUCE_LOAD), (4, NO_ACTION)]"])
  have ss: "samples_seen trained_learner = 3"
    by (simp add: trained_learner_def)
  show ?thesis
    using sv len pa ss
      save_load_roundtrip [OF sv len, of "OnlineLearner_init toy_river 0.5" toy_river
        "[txn_timeout, txn_declined]"]
    by simp
qed

section \<open>Properties of the council\<close>

text \<open>
  The template of the manager prompt shows the JSON answer it asks for with single
  braces. \<open>format\<close> fills the six named fields and then reads the example as a seventh
  field whose name is a newline, four blanks and \<open>"synthesis"\<close>: no such keyword.
\<close>

lemma manager_prompt_format:
  \<open>str_format P MANAGER_AGENT_PROMPT
     [(''risk_argument'', a), (''growth_argument'', b), (''failed_count'', c),
      (''common_error'', d), (''affected_banks'', e), (''total_amount'', f)]
   = Inl (KeyError ''\<newline>    "synthesis"'')\<close>
  by code_simp

text \<open>A role call that fails is replaced by the fallback, which gives a valid argument.\<close>

lemma call_agent_fallback:
  "B n system_prompt context = Inl e \<Longrightarrow> call_agent B n system_prompt context = fallback_response"
  by (simp add: call_agent_def)

lemma AgentArgument_of_fallback:
  "AgentArgument_of name fallback_response =
     Inr \<lparr>agent_name = name, stance = ''moderate'',
          argument = ''Unable to analyze due to API error'', suggested_action = NO_ACTION\<rparr>"
  by (simp add: AgentArgument_of_def fallback_response_def json_get_def dict_get_def
      ActionType_of_def str_field_def)

lemma debate_not_Inr: "LLMCouncil_debate P B elapsed_ms txns \<noteq> Inr d"
  by (simp add: LLMCouncil_debate_def Let_def manager_prompt_format split: sum.splits)

lemma debate_failing_backend:
  \<open>LLMCouncil_debate P failing_backend elapsed_ms txns = Inl (KeyError ''\<newline>    "synthesis"'')\<close>
proof -
  have "call_agent failing_backend n sp ctx = fallback_response" for n sp ctx
    by (simp add: call_agent_def failing_backend_def)
  then show ?thesis
    by (simp add: LLMCouncil_debate_def Let_def AgentArgument_of_fallback manager_prompt_format)
qed

text \<open>
  Claim C5 fails on the code: \<open>LLMCouncil.debate\<close> returns no \<open>CouncilDebate\<close> on any batch
  with any backend, and when every role call fails it raises the \<open>KeyError\<close> of the manager
  prompt after the two fallback arguments have been built.
\<close>

theorem debate_always_raises:
  \<open>LLMCouncil_debate P B elapsed_ms txns \<noteq> Inr d
   \<and> LLMCouncil_debate toy_pyrt failing_backend 1200 (replicate 5 txn_timeout)
       = Inl (KeyError ''\<newline>    "synthesis"'')\<close>
  using debate_not_Inr [of P B elapsed_ms txns d]
    debate_failing_backend [of toy_pyrt 1200 "replicate 5 txn_timeout"]
  by blast

text \<open>With this council the escalation raises and the buffer keeps its six, seven, ... events.\<close>

lemma escalation_with_LLMCouncil:
  assumes "b \<in> set (debate_batches (fst (snd (process_transaction P R (LLMCouncil_debate P B ms) st txn))))"
  shows "snd (snd (process_transaction P R (LLMCouncil_debate P B ms) st txn)) \<noteq> None
     \<and> recent_failures (fst (process_transaction P R (LLMCouncil_debate P B ms) st txn)) = b"
proof -
  note e = pt_escalation [OF assms]
  obtain a c l1 where ic: "is_confident R (learner st) txn = ((False, a, c), l1)"
    using e(2) by (metis (full_types) fst_conv prod.exhaust)
  obtain x where x: "LLMCouncil_debate P B ms (recent_failures st @ [txn]) = Inl x"
    using debate_not_Inr [of P B ms "recent_failures st @ [txn]"]
    by (cases "LLMCouncil_debate P B ms (recent_failures st @ [txn])") auto
  from pt_slow_raise(1,4) [where C = "LLMCouncil_debate P B ms" and P = P, OF e(1) ic e(3) x] e(4)
  show ?thesis by simp
qed

text \<open>The router with \<open>LLMCouncil\<close> on a backend that is down.\<close>

lemma emitted_decisions_append:
  "emitted_decisions (xs @ ys) = emitted_decisions xs @ emitted_decisions ys"
  by (induction xs rule: emitted_decisions.induct) simp_all

lemma transaction_loop_append:
  "transaction_loop P R C st (xs @ ys) =
     (case transaction_loop P R C st xs of
        (st', tr, Some e) \<Rightarrow> (st', tr, Some e)
      | (st', tr, None) \<Rightarrow>
          (case transaction_loop P R C st' ys of (st'', tr', r) \<Rightarrow> (st'', tr @ tr', r)))"
  by (induction xs arbitrary: st) (auto split: prod.splits option.splits)

lemma toy_buffered_step:
  assumes inv: "toy_inv st k n" and f: "status t = FAILED" and k: "k < 20" and n: "n + 1 < 5"
  shows "toy_inv (fst (process_transaction toy_pyrt toy_river C st t)) k (n + 1)"
    and "recent_failures (fst (process_transaction toy_pyrt toy_river C st t)) = recent_failures st @ [t]"
    and "learner (fst (process_transaction toy_pyrt toy_river C st t))
           = snd (predict toy_river (learner st) t)"
    and "emitted_decisions (fst (snd (process_transaction toy_pyrt toy_river C st t))) = []"
    and "debate_batches (fst (snd (process_transaction toy_pyrt toy_river C st t))) = []"
    and "snd (snd (process_transaction toy_pyrt toy_river C st t)) = None"
proof -
  obtain b a c l1 where ic: "is_confident toy_river (learner st) t = ((b, a, c), l1)"
    by (metis prod.exhaust)
  have "\<not> b"
    using toy_confident [OF inv, of t] ic k by simp
  with ic have ic': "is_confident toy_river (learner st) t = ((False, a, c), l1)" by simp
  have l1: "l1 = snd (predict toy_river (learner st) t)"
    using is_confident_state [of toy_river "learner st" t] ic by simp
  have l1f: "model l1 = k" "samples_seen l1 = int k" "confidence_threshold l1 = 0.9"
    using inv by (simp_all add: l1 toy_predict_model predict_fields toy_inv_def)
  have th: "length (recent_failures st) + 1 < FAILURE_THRESHOLD"
    using inv n by (simp add: FAILURE_THRESHOLD_def toy_inv_def)
  note r = pt_buffered [where C = C and P = toy_pyrt, OF f ic' th]
  show "toy_inv (fst (process_transaction toy_pyrt toy_river C st t)) k (n + 1)"
    using r(1,2) l1f inv by (simp add: toy_inv_def)
  show "recent_failures (fst (process_transaction toy_pyrt toy_river C st t)) = recent_failures st @ [t]"
    by (rule r(1))
  show "learner (fst (process_transaction toy_pyrt toy_river C st t))
           = snd (predict toy_river (learner st) t)"
    using r(2) l1 by simp
  show "emitted_decisions (fst (snd (process_transaction toy_pyrt toy_river C st t))) = []"
    by (simp add: r(3))
  show "debate_batches (fst (snd (process_transaction toy_pyrt toy_river C st t))) = []"
    by (simp add: r(3))
  show "snd (snd (process_transaction toy_pyrt toy_river C st t)) = None"
    by (rule r(4))
qed

lemma toy_buffered_loop:
  assumes "toy_inv st k n" and "list_all (\<lambda>t. status t = FAILED) ts" and "k < 20"
    and "n + length ts < 5"
  shows "toy_inv (fst (transaction_loop toy_pyrt toy_river C st ts)) k (n + length ts)
     \<and> recent_failures (fst (transaction_loop toy_pyrt toy_river C st ts)) = recent_failures st @ ts
     \<and> emitted_decisions (fst (snd (transaction_loop toy_pyrt toy_river C st ts))) = []
     \<and> debate_batches (fst (snd (transaction_loop toy_pyrt toy_river C st ts))) = []
     \<and> snd (snd (transaction_loop toy_pyrt toy_river C st ts)) = None"
  using assms
proof (induction ts arbitrary: st n)
  case Nil
  then show ?case by simp
next
  case (Cons t ts)
  from Cons.prems have f: "status t = FAILED" and rest: "list_all (\<lambda>t. status t = FAILED) ts"
    and n1: "n + 1 < 5" and n2: "(n + 1) + length ts < 5"
    by simp_all
  obtain st' tr r where pt: "process_transaction toy_pyrt toy_river C st t = (st', tr, r)"
    by (metis prod.exhaust)
  note s = toy_buffered_step [where C = C, OF Cons.prems(1) f Cons.prems(3) n1]
  from s pt have s': "toy_inv st' k (n + 1)" "recent_failures st' = recent_failures st @ [t]"
    "emitted_decisions tr = []" "debate_batches tr = []" "r = None"
    by simp_all
  obtain st'' tr' r' where lp: "transaction_loop toy_pyrt toy_river C st' ts = (st'', tr', r')"
    by (metis prod.exhaust)
  from Cons.IH [OF s'(1) rest Cons.prems(3) n2] lp
  have i: "toy_inv st'' k (n + 1 + length ts)" "recent_failures st'' = recent_failures st' @ ts"
    "emitted_decisions tr' = []" "debate_batches tr' = []" "r' = None"
    by simp_all
  from s' i show ?case
    by (simp add: pt lp emitted_decisions_append debate_batches_append)
qed

lemma down_council_raises:
  \<open>down_council b = Inl (KeyError ''\<newline>    "synthesis"'')\<close>
  by (simp add: down_council_def debate_failing_backend)

text \<open>
  Claim C4 fails on the code when the council is \<open>LLMCouncil\<close>. From the initial state,
  five failed transactions with the backend down: the fifth fires the escalation on the
  five buffered events, \<open>debate\<close> raises the \<open>KeyError\<close> of the manager prompt, no decision
  is sent, \<open>learn\<close> is not called (\<open>samples_seen\<close> stays 0) and the buffer keeps its five
  events.
\<close>

theorem escalation_with_failing_council:
  \<open>debate_batches (fst (snd (transaction_loop toy_pyrt toy_river down_council
       (AppState_init toy_river) (replicate 5 txn_timeout)))) = [replicate 5 txn_timeout]
   \<and> emitted_decisions (fst (snd (transaction_loop toy_pyrt toy_river down_council
       (AppState_init toy_river) (replicate 5 txn_timeout)))) = []
   \<and> samples_seen (learner (fst (transaction_loop toy_pyrt toy_river down_council
       (AppState_init toy_river) (replicate 5 txn_timeout)))) = 0
   \<and> recent_failures (fst (transaction_loop toy_pyrt toy_river down_council
       (AppState_init toy_river) (replicate 5 txn_timeout))) = replicate 5 txn_timeout
   \<and> snd (snd (transaction_loop toy_pyrt toy_river down_council
       (AppState_init toy_river) (replicate 5 txn_timeout)))
       = Some (KeyError ''\<newline>    "synthesis"'')\<close>
proof -
  let ?C = down_council
  obtain st4 tr4 r4 where l4: "transaction_loop toy_pyrt toy_river ?C (AppState_init toy_river)
      (replicate 4 txn_timeout) = (st4, tr4, r4)"
    by (metis prod.exhaust)
  have fl: "list_all (\<lambda>t. status t = FAILED) (replicate 4 txn_timeout)"
    by (simp add: list_all_iff)
  from toy_buffered_loop [where C = ?C, OF toy_init fl] l4
  have s4: "toy_inv st4 0 4" "recent_failures st4 = replicate 4 txn_timeout"
    "emitted_decisions tr4 = []" "debate_batches tr4 = []" "r4 = None"
    by (simp_all add: AppState_init_def)
  obtain b a c l1 where ic: "is_confident toy_river (learner st4) txn_timeout = ((b, a, c), l1)"
    by (metis prod.exhaust)
  have "\<not> b"
    using toy_confident [OF s4(1), of txn_timeout] ic by simp
  with ic have ic': "is_confident toy_river (learner st4) txn_timeout = ((False, a, c), l1)"
    by simp
  have l1: "samples_seen l1 = 0"
    using is_confident_state [of toy_river "learner st4" txn_timeout]
      predict_fields(1) [of toy_river "learner st4" txn_timeout] s4(1)
    by (simp add: ic toy_inv_def)
  have th: "FAILURE_THRESHOLD \<le> length (recent_failures st4) + 1"
    by (simp add: s4(2) FAILURE_THRESHOLD_def)
  note r = pt_slow_raise [where C = ?C and P = toy_pyrt, OF toy_status(1) ic' th down_council_raises]
  obtain st5 tr5 r5 where p5: "process_transaction toy_pyrt toy_river ?C st4 txn_timeout = (st5, tr5, r5)"
    by (metis prod.exhaust)
  from r p5 have s5: "recent_failures st5 = recent_failures st4 @ [txn_timeout]" "learner st5 = l1"
    "tr5 = [Emit_transaction txn_timeout, Council_debate (recent_failures st4 @ [txn_timeout])]"
    \<open>r5 = Some (KeyError ''\<newline>    "synthesis"'')\<close>
    by simp_all
  have five: "replicate 5 txn_timeout = replicate 4 txn_timeout @ [txn_timeout]"
    by (simp add: eval_nat_numeral)
  have run: \<open>transaction_loop toy_pyrt toy_river ?C (AppState_init toy_river) (replicate 5 txn_timeout)
      = (st5, tr4 @ tr5, Some (KeyError ''\<newline>    "synthesis"''))\<close>
    by (simp add: five transaction_loop_append l4 s4(5) p5 s5(4))
  show ?thesis
    by (simp only: run) (simp add: s4 s5 l1 five emitted_decisions_append debate_batches_append)
qed

text \<open>\<open>MockCouncil\<close> returns a debate whose decision carries the source \<open>TEACHER\<close>.\<close>

lemma MockCouncil_returns:
  assumes "0 \<le> u" "u \<le> 1"
  shows "\<exists>d. MockCouncil_debate a u r b = Inr d \<and> agent_source (final_decision d) = TEACHER
           \<and> action (final_decision d) = a \<and> confidence_score (final_decision d) = u"
  using assms by (simp add: MockCouncil_debate_def Decision_new_def)

end
